theory Spec2Isabelle
  imports Main "HOL-Library.Product_Lexorder"
begin

section \<open>Python values, exceptions and the outside world\<close>

text \<open>
  The two functions of \<^verbatim>\<open>twipper/premium.py\<close> receive arbitrary Python values and
  inspect them only through truthiness (\<^verbatim>\<open>not x\<close>) and \<^verbatim>\<open>isinstance\<close>.
  \<open>PyClient\<close> is an instance of \<^verbatim>\<open>oauth2.Client\<close>; \<open>PyOther b\<close> is a value of any
  other type (a float, a list, a dict, ...) whose truth value is \<open>b\<close>.
\<close>

datatype pyval = PyNone | PyBool bool | PyInt int | PyStr string | PyClient nat | PyOther bool

fun truthy :: "pyval \<Rightarrow> bool" where
  "truthy PyNone = False"
| "truthy (PyBool b) = b"
| "truthy (PyInt n) = (n \<noteq> 0)"
| "truthy (PyStr s) = (s \<noteq> [])"
| "truthy (PyClient c) = True"
| "truthy (PyOther b) = b"

fun isinstance_Client :: "pyval \<Rightarrow> bool" where
  "isinstance_Client (PyClient c) = True"
| "isinstance_Client v = False"

fun isinstance_str :: "pyval \<Rightarrow> bool" where
  "isinstance_str (PyStr s) = True"
| "isinstance_str v = False"

text \<open>In Python \<^verbatim>\<open>bool\<close> is a subclass of \<^verbatim>\<open>int\<close>.\<close>

fun isinstance_int :: "pyval \<Rightarrow> bool" where
  "isinstance_int (PyInt n) = True"
| "isinstance_int (PyBool b) = True"
| "isinstance_int v = False"

fun str_of :: "pyval \<Rightarrow> string option" where
  "str_of (PyStr s) = Some s"
| "str_of v = None"

fun int_of :: "pyval \<Rightarrow> int option" where
  "int_of (PyInt n) = Some n"
| "int_of (PyBool b) = Some (if b then 1 else 0)"
| "int_of v = None"

text \<open>
  Exceptions carry their class and their message. A subclass caught by an \<^verbatim>\<open>except\<close>
  clause of the source is represented by the class the clause names; \<open>OtherError\<close> is any
  class the source does not name.
\<close>

datatype exn_kind =
  ValueError | TypeError | RuntimeError | ConnectionError | IndexError | JSONDecodeError
  | OtherError

datatype exn = Exn exn_kind string

fun kind :: "exn \<Rightarrow> exn_kind" where
  "kind (Exn k m) = k"

text \<open>\<^verbatim>\<open>str(n)\<close> for an integer: its decimal digits, with a sign when negative.\<close>

fun str_nat :: "nat \<Rightarrow> string" where
  "str_nat n =
     (if n < 10 then [char_of (48 + n)] else str_nat (n div 10) @ [char_of (48 + n mod 10)])"

declare str_nat.simps [simp del]

definition str_int :: "int \<Rightarrow> string" where
  "str_int i = (if i < 0 then CHR ''-'' # str_nat (nat (- i)) else str_nat (nat i))"

text \<open>
  A naive \<^verbatim>\<open>datetime\<close> parsed under \<^verbatim>\<open>'%Y%m%d%H%M'\<close> (seconds and microseconds
  are zero). Python's \<^verbatim>\<open>>=\<close> compares two of them field by field from the year down,
  which is the lexicographic order on the tuple of the fields.
\<close>

record datetime =
  year :: int
  month :: int
  day :: int
  hour :: int
  minute :: int

definition datetime_ge :: "datetime \<Rightarrow> datetime \<Rightarrow> bool" where
  "datetime_ge a b =
     ((year a, month a, day a, hour a, minute a) \<ge> (year b, month b, day b, hour b, minute b))"

text \<open>
  The JSON body of a request (\<^verbatim>\<open>data\<close> before \<^verbatim>\<open>json.dumps\<close>): the key
  \<^verbatim>\<open>'next'\<close> is present on continuation requests only.
\<close>

record data =
  data_query :: string
  fromDate :: string
  toDate :: string
  maxResults :: int
  data_next :: "string option"

text \<open>The arguments of one \<^verbatim>\<open>requests.post(url, headers=headers, data=data)\<close>.\<close>

record request =
  post_url :: string
  post_headers :: "(string \<times> string) list"
  post_data :: data

text \<open>
  The decoded body of a response (\<^verbatim>\<open>result = response.json()\<close>): a JSON object whose
  keys \<^verbatim>\<open>'results'\<close> (an array of tweets) and \<^verbatim>\<open>'next'\<close> (a token) may each be
  absent. Tweets are opaque, of type \<open>'t\<close>.
\<close>

record 't result =
  results :: "'t list option"
  next_key :: "string option"

record 't response =
  status_code :: int
  json :: "'t result"

text \<open>
  What the functions call and do not define:
  \<^item> \<open>strptime\<close> is \<^verbatim>\<open>datetime.datetime.strptime(s, '%Y%m%d%H%M')\<close> of the standard
    library on a string, \<open>None\<close> where it raises \<^verbatim>\<open>ValueError\<close>;
  \<^item> \<open>available_languages\<close> is \<^verbatim>\<open>twipper.utils.available_languages\<close>, which returns a
    collection of language codes or raises;
  \<^item> \<open>requests_post\<close> is the server behind \<^verbatim>\<open>requests.post\<close>: it answers the last
    request of the list, and its answer may depend on all the requests this call has
    sent before (the earlier elements). The transport is taken to deliver a response
    whose body decodes to a JSON object.
\<close>

record 't env =
  strptime :: "string \<Rightarrow> datetime option"
  available_languages :: "pyval \<Rightarrow> exn + string list"
  requests_post :: "request list \<Rightarrow> 't response"

text \<open>The observable effects of a call, in order, and its outcome.\<close>

datatype call = Languages pyval | Search request

record 't run =
  outcome :: "exn + 't list"
  calls :: "call list"

fun searches :: "call list \<Rightarrow> request list" where
  "searches [] = []"
| "searches (Languages a # cs) = searches cs"
| "searches (Search r # cs) = r # searches cs"

fun lookups :: "call list \<Rightarrow> pyval list" where
  "lookups [] = []"
| "lookups (Languages a # cs) = a # lookups cs"
| "lookups (Search r # cs) = lookups cs"

text \<open>
  \<^verbatim>\<open>datetime.datetime.strptime(v, '%Y%m%d%H%M')\<close> on a Python value: a value that is not
  a string raises \<^verbatim>\<open>TypeError\<close>, which \<^verbatim>\<open>except ValueError\<close> does not catch. The
  source replaces the message of the \<^verbatim>\<open>ValueError\<close>, so its text is never observed.
\<close>

definition py_strptime :: "(string \<Rightarrow> datetime option) \<Rightarrow> pyval \<Rightarrow> exn + datetime" where
  "py_strptime strp v =
     (case v of
        PyStr s \<Rightarrow>
          (case strp s of
             Some d \<Rightarrow> Inr d
           | None \<Rightarrow> Inl (Exn ValueError ''time data does not match format''))
      | _ \<Rightarrow> Inl (Exn TypeError ''strptime() argument 1 must be str''))"

section \<open>search_tweets\<close>

text \<open>Lines 45--86: the checks of the arguments, in the order of the source.\<close>

definition search_tweets_validate ::
  "(string \<Rightarrow> datetime option) \<Rightarrow> pyval \<Rightarrow> pyval \<Rightarrow> pyval \<Rightarrow> pyval \<Rightarrow> pyval \<Rightarrow> pyval \<Rightarrow> pyval
     \<Rightarrow> pyval \<Rightarrow> pyval \<Rightarrow> exn option" where
  "search_tweets_validate strp api oauth_token plan label query page_count from_date to_date
       language =
     (if \<not> truthy api \<or> \<not> isinstance_Client api then
        Some (Exn ValueError ''specified api is not valid!'')
      else if \<not> truthy oauth_token \<or> \<not> isinstance_str oauth_token then
        Some (Exn ValueError ''oauth_token is not valid!'')
      else if \<not> truthy plan \<or> \<not> isinstance_str plan then
        Some (Exn ValueError ''plan must be a `str`!'')
      else if \<not> truthy label \<or> \<not> isinstance_str label then
        Some (Exn ValueError ''label must be a `str`!'')
      else if \<not> truthy query \<or> \<not> isinstance_str query then
        Some (Exn ValueError ''query must be a `str`'')
      else if \<not> truthy page_count \<or> \<not> isinstance_int page_count then
        Some (Exn ValueError ''page_count must be an `int`!'')
      else if \<not> truthy from_date \<or> \<not> isinstance_str from_date then
        Some (Exn ValueError ''from_date must be a `bool`!'')
      else
        (case py_strptime strp from_date of
           Inl e \<Rightarrow>
             if kind e = ValueError then
               Some (Exn ValueError ''incorrect date format, it should be `yyyymmddhhmm`'')
             else Some e
         | Inr d1 \<Rightarrow>
             if \<not> truthy to_date \<or> \<not> isinstance_str to_date then
               Some (Exn ValueError ''to_date must be a `bool`!'')
             else
               (case py_strptime strp to_date of
                  Inl e \<Rightarrow>
                    if kind e = ValueError then
                      Some (Exn ValueError
                        ''incorrect date format, it should be `yyyymmddhhmm`'')
                    else Some e
                | Inr d2 \<Rightarrow>
                    if truthy language \<and> \<not> isinstance_str language then
                      Some (Exn ValueError ''language must be a `str`!'')
                    else
                      (case py_strptime strp from_date of
                         Inl e \<Rightarrow> Some e
                       | Inr start_date \<Rightarrow>
                           (case py_strptime strp to_date of
                              Inl e \<Rightarrow> Some e
                            | Inr end_date \<Rightarrow>
                                if datetime_ge start_date end_date then
                                  Some (Exn ValueError
                                    ''incorrect dates, as from_date should be earlier than to_date.'')
                                else None)))))"

text \<open>
  Lines 95--104: \<^verbatim>\<open>available_languages(api)\<close> is called whatever \<^verbatim>\<open>language\<close> is;
  the three exception classes of the \<^verbatim>\<open>except\<close> clause become \<^verbatim>\<open>RuntimeError\<close>, any
  other exception propagates. \<^verbatim>\<open>language in languages\<close> is false for a value that is
  not a string. The result is the query of the request.
\<close>

definition search_tweets_language :: "'t env \<Rightarrow> pyval \<Rightarrow> string \<Rightarrow> pyval \<Rightarrow> exn + string" where
  "search_tweets_language env api query language =
     (case available_languages env api of
        Inl e \<Rightarrow>
          if kind e \<in> {ConnectionError, JSONDecodeError, IndexError} then
            Inl (Exn RuntimeError ''`available_languages` function failed.'')
          else Inl e
      | Inr languages \<Rightarrow>
          if truthy language then
            (case language of
               PyStr l \<Rightarrow>
                 if l \<in> set languages then Inr (query @ '' lang:'' @ l)
                 else Inl (Exn ValueError ''the introduced language does not exist.'')
             | _ \<Rightarrow> Inl (Exn ValueError ''the introduced language does not exist.''))
          else Inr query)"

text \<open>
  Lines 138--164: the continuation loop, \<open>n\<close> iterations left. \<open>sent\<close> is the list of the
  requests posted so far; the result is the list of tweets and the requests posted.
\<close>

fun search_tweets_follow ::
  "'t env \<Rightarrow> string \<Rightarrow> (string \<times> string) list \<Rightarrow> string \<Rightarrow> string \<Rightarrow> string \<Rightarrow> nat \<Rightarrow> string
     \<Rightarrow> 't list \<Rightarrow> request list \<Rightarrow> 't list \<times> request list" where
  "search_tweets_follow env url headers query from_date to_date 0 next_page tweets sent =
     (tweets, sent)"
| "search_tweets_follow env url headers query from_date to_date (Suc n) next_page tweets sent =
     (let data = \<lparr>data_query = query, fromDate = from_date, toDate = to_date,
                   maxResults = 100, data_next = Some next_page\<rparr>;
          sent' = sent @ [\<lparr>post_url = url, post_headers = headers, post_data = data\<rparr>];
          response = requests_post env sent'
      in if status_code response \<noteq> 200 then (tweets, sent')
         else
           (case results (json response) of
              None \<Rightarrow> (tweets, sent')
            | Some page \<Rightarrow>
                (case next_key (json response) of
                   Some next_page' \<Rightarrow>
                     search_tweets_follow env url headers query from_date to_date n
                       next_page' (tweets @ page) sent'
                 | None \<Rightarrow> (tweets @ page, sent'))))"

text \<open>
  Lines 106--169: the first request, the loop of \<^verbatim>\<open>range(page_count - 1)\<close> iterations
  and the two places where the list is returned or \<^verbatim>\<open>IndexError\<close> is raised.
\<close>

definition search_tweets_pages ::
  "'t env \<Rightarrow> string \<Rightarrow> (string \<times> string) list \<Rightarrow> string \<Rightarrow> string \<Rightarrow> string \<Rightarrow> int
     \<Rightarrow> (exn + 't list) \<times> request list" where
  "search_tweets_pages env url headers query from_date to_date page_count =
     (let data = \<lparr>data_query = query, fromDate = from_date, toDate = to_date,
                   maxResults = 100, data_next = None\<rparr>;
          sent = [\<lparr>post_url = url, post_headers = headers, post_data = data\<rparr>];
          response = requests_post env sent
      in if status_code response \<noteq> 200 then
           (Inl (Exn ConnectionError
              (''connection to api.twitter could not be established, with error         code ''
                 @ str_int (status_code response))), sent)
         else
           (case results (json response) of
              None \<Rightarrow> (Inl (Exn IndexError ''no tweets could be retrieved.''), sent)
            | Some page \<Rightarrow>
                (case next_key (json response) of
                   None \<Rightarrow>
                     if length page > 0 then (Inr page, sent)
                     else (Inl (Exn IndexError '' no tweets could be retrieved.''), sent)
                 | Some next_page \<Rightarrow>
                     (case search_tweets_follow env url headers query from_date to_date
                             (nat (page_count - 1)) next_page page sent of
                        (tweets, sent') \<Rightarrow>
                          if length tweets > 0 then (Inr tweets, sent')
                          else (Inl (Exn IndexError ''no tweets could be retrieved.''), sent')))))"

text \<open>
  The whole function. Once the checks have passed, the arguments used as strings are
  strings and \<^verbatim>\<open>page_count\<close> is an integer (lemma \<open>search_tweets_validate_NoneD\<close>); the
  last branch stands for the \<^verbatim>\<open>TypeError\<close> of \<^verbatim>\<open>+\<close> and \<^verbatim>\<open>-\<close> on other values.
\<close>

definition search_tweets ::
  "'t env \<Rightarrow> pyval \<Rightarrow> pyval \<Rightarrow> pyval \<Rightarrow> pyval \<Rightarrow> pyval \<Rightarrow> pyval \<Rightarrow> pyval \<Rightarrow> pyval \<Rightarrow> pyval
     \<Rightarrow> 't run" where
  "search_tweets env api oauth_token plan label query page_count from_date to_date language =
     (case search_tweets_validate (strptime env) api oauth_token plan label query page_count
             from_date to_date language of
        Some e \<Rightarrow> \<lparr>outcome = Inl e, calls = []\<rparr>
      | None \<Rightarrow>
          (case (str_of oauth_token, str_of plan, str_of label, str_of query,
                 int_of page_count, str_of from_date, str_of to_date) of
             (Some tok, Some pl, Some lb, Some q, Some pc, Some fd, Some td) \<Rightarrow>
               (let url = ''https://api.twitter.com/1.1/tweets/search/'' @ pl @ ''/'' @ lb
                            @ ''.json'';
                    headers = [(''Authorization'', ''Bearer '' @ tok),
                               (''Content-Type'', ''application/json'')]
                in case search_tweets_language env api q language of
                     Inl e \<Rightarrow> \<lparr>outcome = Inl e, calls = [Languages api]\<rparr>
                   | Inr q' \<Rightarrow>
                       (case search_tweets_pages env url headers q' fd td pc of
                          (out, sent) \<Rightarrow>
                            \<lparr>outcome = out, calls = Languages api # map Search sent\<rparr>))
           | _ \<Rightarrow> \<lparr>outcome = Inl (Exn TypeError ''unsupported operand type(s)''), calls = []\<rparr>))"

text \<open>
  The value of the variable \<^verbatim>\<open>tweets\<close> of \<^verbatim>\<open>search_tweets\<close> when control reaches
  lines 130--134 or lines 166--169, where the function returns it or raises; \<open>None\<close>
  when these lines are not reached (lines 119--121 or 127--128 raise).
\<close>

definition search_tweets_aggregate ::
  "'t env \<Rightarrow> string \<Rightarrow> (string \<times> string) list \<Rightarrow> string \<Rightarrow> string \<Rightarrow> string \<Rightarrow> int
     \<Rightarrow> 't list option" where
  "search_tweets_aggregate env url headers query from_date to_date page_count =
     (let data = \<lparr>data_query = query, fromDate = from_date, toDate = to_date,
                   maxResults = 100, data_next = None\<rparr>;
          sent = [\<lparr>post_url = url, post_headers = headers, post_data = data\<rparr>];
          response = requests_post env sent
      in if status_code response \<noteq> 200 then None
         else
           (case results (json response) of
              None \<Rightarrow> None
            | Some page \<Rightarrow>
                (case next_key (json response) of
                   None \<Rightarrow> Some page
                 | Some next_page \<Rightarrow>
                     Some (fst (search_tweets_follow env url headers query from_date to_date
                                  (nat (page_count - 1)) next_page page sent)))))"

section \<open>wrapper_premium_user_search\<close>

text \<open>Lines 205--246: the same checks, on \<^verbatim>\<open>screen_name\<close> in place of \<^verbatim>\<open>query\<close>.\<close>

definition wrapper_validate ::
  "(string \<Rightarrow> datetime option) \<Rightarrow> pyval \<Rightarrow> pyval \<Rightarrow> pyval \<Rightarrow> pyval \<Rightarrow> pyval \<Rightarrow> pyval \<Rightarrow> pyval
     \<Rightarrow> pyval \<Rightarrow> pyval \<Rightarrow> exn option" where
  "wrapper_validate strp api oauth_token plan label screen_name page_count from_date to_date
       language =
     (if \<not> truthy api \<or> \<not> isinstance_Client api then
        Some (Exn ValueError ''specified api is not valid!'')
      else if \<not> truthy oauth_token \<or> \<not> isinstance_str oauth_token then
        Some (Exn ValueError ''oauth_token is not valid!'')
      else if \<not> truthy plan \<or> \<not> isinstance_str plan then
        Some (Exn ValueError ''plan must be a `str`!'')
      else if \<not> truthy label \<or> \<not> isinstance_str label then
        Some (Exn ValueError ''label must be a `str`!'')
      else if \<not> truthy screen_name \<or> \<not> isinstance_str screen_name then
        Some (Exn ValueError ''screen_name must be a `str`'')
      else if \<not> truthy page_count \<or> \<not> isinstance_int page_count then
        Some (Exn ValueError ''page_count must be an `int`!'')
      else if \<not> truthy from_date \<or> \<not> isinstance_str from_date then
        Some (Exn ValueError ''from_date must be a `bool`!'')
      else
        (case py_strptime strp from_date of
           Inl e \<Rightarrow>
             if kind e = ValueError then
               Some (Exn ValueError ''incorrect date format, it should be `yyyymmddhhmm`'')
             else Some e
         | Inr d1 \<Rightarrow>
             if \<not> truthy to_date \<or> \<not> isinstance_str to_date then
               Some (Exn ValueError ''to_date must be a `bool`!'')
             else
               (case py_strptime strp to_date of
                  Inl e \<Rightarrow>
                    if kind e = ValueError then
                      Some (Exn ValueError
                        ''incorrect date format, it should be `yyyymmddhhmm`'')
                    else Some e
                | Inr d2 \<Rightarrow>
                    if truthy language \<and> \<not> isinstance_str language then
                      Some (Exn ValueError ''language must be a `str`!'')
                    else
                      (case py_strptime strp from_date of
                         Inl e \<Rightarrow> Some e
                       | Inr start_date \<Rightarrow>
                           (case py_strptime strp to_date of
                              Inl e \<Rightarrow> Some e
                            | Inr end_date \<Rightarrow>
                                if datetime_ge start_date end_date then
                                  Some (Exn ValueError
                                    ''incorrect dates, as from_date should be earlier than to_date.'')
                                else None)))))"

text \<open>Lines 257--266.\<close>

definition wrapper_language :: "'t env \<Rightarrow> pyval \<Rightarrow> string \<Rightarrow> pyval \<Rightarrow> exn + string" where
  "wrapper_language env api query language =
     (case available_languages env api of
        Inl e \<Rightarrow>
          if kind e \<in> {ConnectionError, JSONDecodeError, IndexError} then
            Inl (Exn RuntimeError ''`available_languages` function failed.'')
          else Inl e
      | Inr languages \<Rightarrow>
          if truthy language then
            (case language of
               PyStr l \<Rightarrow>
                 if l \<in> set languages then Inr (query @ '' lang:'' @ l)
                 else Inl (Exn ValueError ''the introduced language does not exist.'')
             | _ \<Rightarrow> Inl (Exn ValueError ''the introduced language does not exist.''))
          else Inr query)"

text \<open>Lines 300--326.\<close>

fun wrapper_follow ::
  "'t env \<Rightarrow> string \<Rightarrow> (string \<times> string) list \<Rightarrow> string \<Rightarrow> string \<Rightarrow> string \<Rightarrow> nat \<Rightarrow> string
     \<Rightarrow> 't list \<Rightarrow> request list \<Rightarrow> 't list \<times> request list" where
  "wrapper_follow env url headers query from_date to_date 0 next_page tweets sent =
     (tweets, sent)"
| "wrapper_follow env url headers query from_date to_date (Suc n) next_page tweets sent =
     (let data = \<lparr>data_query = query, fromDate = from_date, toDate = to_date,
                   maxResults = 100, data_next = Some next_page\<rparr>;
          sent' = sent @ [\<lparr>post_url = url, post_headers = headers, post_data = data\<rparr>];
          response = requests_post env sent'
      in if status_code response \<noteq> 200 then (tweets, sent')
         else
           (case results (json response) of
              None \<Rightarrow> (tweets, sent')
            | Some page \<Rightarrow>
                (case next_key (json response) of
                   Some next_page' \<Rightarrow>
                     wrapper_follow env url headers query from_date to_date n
                       next_page' (tweets @ page) sent'
                 | None \<Rightarrow> (tweets @ page, sent'))))"

text \<open>
  Lines 268--331. The message of the \<^verbatim>\<open>ConnectionError\<close> has twelve spaces where that
  of \<^verbatim>\<open>search_tweets\<close> has eight (the continuation line of the literal is indented
  deeper).
\<close>

definition wrapper_pages ::
  "'t env \<Rightarrow> string \<Rightarrow> (string \<times> string) list \<Rightarrow> string \<Rightarrow> string \<Rightarrow> string \<Rightarrow> int
     \<Rightarrow> (exn + 't list) \<times> request list" where
  "wrapper_pages env url headers query from_date to_date page_count =
     (let data = \<lparr>data_query = query, fromDate = from_date, toDate = to_date,
                   maxResults = 100, data_next = None\<rparr>;
          sent = [\<lparr>post_url = url, post_headers = headers, post_data = data\<rparr>];
          response = requests_post env sent
      in if status_code response \<noteq> 200 then
           (Inl (Exn ConnectionError
              (''connection to api.twitter could not be established, with error             code ''
                 @ str_int (status_code response))), sent)
         else
           (case results (json response) of
              None \<Rightarrow> (Inl (Exn IndexError ''no tweets could be retrieved.''), sent)
            | Some page \<Rightarrow>
                (case next_key (json response) of
                   None \<Rightarrow>
                     if length page > 0 then (Inr page, sent)
                     else (Inl (Exn IndexError '' no tweets could be retrieved.''), sent)
                 | Some next_page \<Rightarrow>
                     (case wrapper_follow env url headers query from_date to_date
                             (nat (page_count - 1)) next_page page sent of
                        (tweets, sent') \<Rightarrow>
                          if length tweets > 0 then (Inr tweets, sent')
                          else (Inl (Exn IndexError ''no tweets could be retrieved.''), sent')))))"

text \<open>The whole function; line 250 builds the query from \<^verbatim>\<open>screen_name\<close>.\<close>

definition wrapper_premium_user_search ::
  "'t env \<Rightarrow> pyval \<Rightarrow> pyval \<Rightarrow> pyval \<Rightarrow> pyval \<Rightarrow> pyval \<Rightarrow> pyval \<Rightarrow> pyval \<Rightarrow> pyval \<Rightarrow> pyval
     \<Rightarrow> 't run" where
  "wrapper_premium_user_search env api oauth_token plan label screen_name page_count from_date
       to_date language =
     (case wrapper_validate (strptime env) api oauth_token plan label screen_name page_count
             from_date to_date language of
        Some e \<Rightarrow> \<lparr>outcome = Inl e, calls = []\<rparr>
      | None \<Rightarrow>
          (case (str_of oauth_token, str_of plan, str_of label, str_of screen_name,
                 int_of page_count, str_of from_date, str_of to_date) of
             (Some tok, Some pl, Some lb, Some sn, Some pc, Some fd, Some td) \<Rightarrow>
               (let url = ''https://api.twitter.com/1.1/tweets/search/'' @ pl @ ''/'' @ lb
                            @ ''.json'';
                    query = ''from:'' @ sn;
                    headers = [(''Authorization'', ''Bearer '' @ tok),
                               (''Content-Type'', ''application/json'')]
                in case wrapper_language env api query language of
                     Inl e \<Rightarrow> \<lparr>outcome = Inl e, calls = [Languages api]\<rparr>
                   | Inr q' \<Rightarrow>
                       (case wrapper_pages env url headers q' fd td pc of
                          (out, sent) \<Rightarrow>
                            \<lparr>outcome = out, calls = Languages api # map Search sent\<rparr>))
           | _ \<Rightarrow> \<lparr>outcome = Inl (Exn TypeError ''unsupported operand type(s)''), calls = []\<rparr>))"

section \<open>Requests and agreement of two runs\<close>

text \<open>
  The URL and the headers of every request (lines 88--93 and 248--255), and the first
  request of a call or a continuation request, as both functions build them.
\<close>

definition search_url :: "string \<Rightarrow> string \<Rightarrow> string" where
  "search_url pl lb = ''https://api.twitter.com/1.1/tweets/search/'' @ pl @ ''/'' @ lb @ ''.json''"

definition search_headers :: "string \<Rightarrow> (string \<times> string) list" where
  "search_headers tok =
     [(''Authorization'', ''Bearer '' @ tok), (''Content-Type'', ''application/json'')]"

definition page_request ::
  "string \<Rightarrow> string \<Rightarrow> string \<Rightarrow> string \<Rightarrow> string \<Rightarrow> string \<Rightarrow> string option \<Rightarrow> request" where
  "page_request tok pl lb q fd td nxt =
     \<lparr>post_url = search_url pl lb,
      post_headers = search_headers tok,
      post_data = \<lparr>data_query = q, fromDate = fd, toDate = td, maxResults = 100,
                   data_next = nxt\<rparr>\<rparr>"

text \<open>
  Two runs behave identically when they return the same list or raise an exception of
  the same class, after the same calls.
\<close>

definition same_behaviour :: "'t run \<Rightarrow> 't run \<Rightarrow> bool" where
  "same_behaviour r1 r2 =
     ((case (outcome r1, outcome r2) of
         (Inr a, Inr b) \<Rightarrow> a = b
       | (Inl e1, Inl e2) \<Rightarrow> kind e1 = kind e2
       | _ \<Rightarrow> False)
      \<and> calls r1 = calls r2)"

text \<open>
  A run of at most one search request: it posts at most one, a list it returns is the
  non-empty \<^verbatim>\<open>'results'\<close> array of the answer to that request (of status 200), and
  whenever that answer has status 200 and a non-empty array, the array is returned.
\<close>

definition single_page :: "'t env \<Rightarrow> 't run \<Rightarrow> bool" where
  "single_page env r =
     (length (searches (calls r)) \<le> 1
      \<and> (\<forall>ts. outcome r = Inr ts \<longrightarrow>
             ts \<noteq> [] \<and> (\<exists>req. searches (calls r) = [req]
                           \<and> status_code (requests_post env [req]) = 200
                           \<and> results (json (requests_post env [req])) = Some ts))
      \<and> (\<forall>req page. searches (calls r) = [req]
             \<and> status_code (requests_post env [req]) = 200
             \<and> results (json (requests_post env [req])) = Some page \<and> page \<noteq> []
             \<longrightarrow> outcome r = Inr page))"

section \<open>A concrete world for examples\<close>

text \<open>
  A parser that reads exactly twelve ASCII digits as the fixed-width fields
  \<^verbatim>\<open>YYYYMMDDhhmm\<close> of a valid date. It is one possible value of the parameter
  \<open>strptime\<close>, used in the examples only.
\<close>

definition digit_val :: "char \<Rightarrow> int option" where
  "digit_val c =
     (let n = (of_char c :: nat) in if 48 \<le> n \<and> n \<le> 57 then Some (int n - 48) else None)"

fun number_acc :: "int \<Rightarrow> string \<Rightarrow> int option" where
  "number_acc a [] = Some a"
| "number_acc a (c # cs) =
     (case digit_val c of None \<Rightarrow> None | Some d \<Rightarrow> number_acc (10 * a + d) cs)"

definition days_in_month :: "int \<Rightarrow> int \<Rightarrow> int" where
  "days_in_month y m =
     (if m = 2 then (if y mod 4 = 0 \<and> (y mod 100 \<noteq> 0 \<or> y mod 400 = 0) then 29 else 28)
      else if m = 4 \<or> m = 6 \<or> m = 9 \<or> m = 11 then 30 else 31)"

definition strptime_fixed :: "string \<Rightarrow> datetime option" where
  "strptime_fixed s =
     (if length s \<noteq> 12 then None
      else
        (case (number_acc 0 (take 4 s), number_acc 0 (take 2 (drop 4 s)),
               number_acc 0 (take 2 (drop 6 s)), number_acc 0 (take 2 (drop 8 s)),
               number_acc 0 (take 2 (drop 10 s))) of
           (Some y, Some m, Some d, Some h, Some mi) \<Rightarrow>
             if 1 \<le> y \<and> 1 \<le> m \<and> m \<le> 12 \<and> 1 \<le> d \<and> d \<le> days_in_month y m \<and> h \<le> 23 \<and> mi \<le> 59
             then Some \<lparr>year = y, month = m, day = d, hour = h, minute = mi\<rparr> else None
         | _ \<Rightarrow> None))"

text \<open>
  A server whose first \<open>good\<close> answers are pages of \<open>per_page\<close> numbered tweets, with a
  continuation token on every page before page \<open>last_page\<close>, and whose later answers have
  status 503.
\<close>

definition demo_server :: "nat \<Rightarrow> nat \<Rightarrow> nat \<Rightarrow> request list \<Rightarrow> nat response" where
  "demo_server per_page good last_page sent =
     (let k = length sent
      in if k \<le> good then
           \<lparr>status_code = 200,
            json = \<lparr>results = Some [(k - 1) * per_page ..< k * per_page],
                    next_key = (if k < last_page then Some (''page'' @ str_nat (k + 1)) else None)\<rparr>\<rparr>
         else \<lparr>status_code = 503, json = \<lparr>results = None, next_key = None\<rparr>\<rparr>)"

definition demo_env :: "nat \<Rightarrow> nat \<Rightarrow> nat \<Rightarrow> nat env" where
  "demo_env per_page good last_page =
     \<lparr>strptime = strptime_fixed,
      available_languages = (\<lambda>api. Inr [''en'', ''es'']),
      requests_post = demo_server per_page good last_page\<rparr>"

section \<open>Validation\<close>

lemma str_arg_iff: "(\<not> truthy v \<or> \<not> isinstance_str v) = (\<forall>s. s \<noteq> [] \<longrightarrow> v \<noteq> PyStr s)"
  by (cases v) auto

lemma client_arg_iff: "(\<not> truthy v \<or> \<not> isinstance_Client v) = (\<forall>c. v \<noteq> PyClient c)"
  by (cases v) auto

lemma int_arg_iff: "(\<not> truthy v \<or> \<not> isinstance_int v) = (int_of v = None \<or> int_of v = Some 0)"
  by (cases v) auto

lemma py_strptime_str: "py_strptime strp (PyStr s) =
   (case strp s of Some d \<Rightarrow> Inr d | None \<Rightarrow> Inl (Exn ValueError ''time data does not match format''))"
  by (simp add: py_strptime_def)

lemma py_strptime_kind:
  "isinstance_str v \<Longrightarrow> py_strptime strp v = Inl e \<Longrightarrow> kind e = ValueError"
  by (cases v) (auto simp: py_strptime_def split: option.splits)

lemma search_tweets_validate_ValueError:
  "search_tweets_validate strp api oauth_token plan label query page_count from_date to_date language = Some e
   \<Longrightarrow> kind e = ValueError"
  unfolding search_tweets_validate_def
  by (auto split: if_splits sum.splits dest: py_strptime_kind)


lemma py_strptime_Inr_iff:
  "py_strptime strp v = Inr d \<longleftrightarrow> (\<exists>s. v = PyStr s \<and> strp s = Some d)"
  by (cases v) (auto simp: py_strptime_def split: option.splits)


lemma if_Some_eq_None: "((if c then Some e else x) = None) = (\<not> c \<and> x = None)"
  by simp

lemma case_sum_eq_None:
  "((case s of Inl e \<Rightarrow> Some (h e) | Inr d \<Rightarrow> g d) = None) = (\<exists>d. s = Inr d \<and> g d = None)"
  by (cases s) auto

lemma if_Some_Some: "(if c then Some a else Some b) = Some (if c then a else b)"
  by simp


lemma search_tweets_validate_NoneD:
  assumes "search_tweets_validate strp api oauth_token plan label query page_count from_date to_date language = None"
  shows "(\<exists>c. api = PyClient c) \<and> (\<exists>s. s \<noteq> [] \<and> oauth_token = PyStr s) \<and> (\<exists>s. s \<noteq> [] \<and> plan = PyStr s)
   \<and> (\<exists>s. s \<noteq> [] \<and> label = PyStr s) \<and> (\<exists>s. s \<noteq> [] \<and> query = PyStr s)
   \<and> (\<exists>n. n \<noteq> 0 \<and> int_of page_count = Some n)
   \<and> (\<exists>f t d1 d2. f \<noteq> [] \<and> from_date = PyStr f \<and> t \<noteq> [] \<and> to_date = PyStr t
         \<and> strp f = Some d1 \<and> strp t = Some d2 \<and> \<not> datetime_ge d1 d2)
   \<and> (truthy language \<longrightarrow> isinstance_str language)"
  using assms [unfolded search_tweets_validate_def if_Some_Some if_Some_eq_None case_sum_eq_None
      str_arg_iff client_arg_iff int_arg_iff py_strptime_Inr_iff]
  by auto

lemma wrapper_validate_ValueError:
  "wrapper_validate strp api oauth_token plan label screen_name page_count from_date to_date language = Some e
   \<Longrightarrow> kind e = ValueError"
  unfolding wrapper_validate_def
  by (auto split: if_splits sum.splits dest: py_strptime_kind)

lemma wrapper_validate_NoneD:
  assumes "wrapper_validate strp api oauth_token plan label screen_name page_count from_date to_date language = None"
  shows "(\<exists>c. api = PyClient c) \<and> (\<exists>s. s \<noteq> [] \<and> oauth_token = PyStr s) \<and> (\<exists>s. s \<noteq> [] \<and> plan = PyStr s)
   \<and> (\<exists>s. s \<noteq> [] \<and> label = PyStr s) \<and> (\<exists>s. s \<noteq> [] \<and> screen_name = PyStr s)
   \<and> (\<exists>n. n \<noteq> 0 \<and> int_of page_count = Some n)
   \<and> (\<exists>f t d1 d2. f \<noteq> [] \<and> from_date = PyStr f \<and> t \<noteq> [] \<and> to_date = PyStr t
         \<and> strp f = Some d1 \<and> strp t = Some d2 \<and> \<not> datetime_ge d1 d2)
   \<and> (truthy language \<longrightarrow> isinstance_str language)"
  using assms [unfolded wrapper_validate_def if_Some_Some if_Some_eq_None case_sum_eq_None
      str_arg_iff client_arg_iff int_arg_iff py_strptime_Inr_iff]
  by auto

lemma search_tweets_invalid:
  assumes "search_tweets_validate (strptime env) api oauth_token plan label query page_count from_date to_date language \<noteq> None"
  shows "\<exists>m. search_tweets env api oauth_token plan label query page_count from_date to_date language
    = \<lparr>outcome = Inl (Exn ValueError m), calls = []\<rparr>"
proof -
  from assms obtain e where e: "search_tweets_validate (strptime env) api oauth_token plan label query page_count
      from_date to_date language = Some e"
    by blast
  then have "kind e = ValueError" by (rule search_tweets_validate_ValueError)
  then obtain m where "e = Exn ValueError m" by (cases e) simp
  with e show ?thesis by (simp add: search_tweets_def)
qed

lemma wrapper_invalid:
  assumes "wrapper_validate (strptime env) api oauth_token plan label screen_name page_count from_date to_date language \<noteq> None"
  shows "\<exists>m. wrapper_premium_user_search env api oauth_token plan label screen_name page_count from_date to_date language
    = \<lparr>outcome = Inl (Exn ValueError m), calls = []\<rparr>"
proof -
  from assms obtain e where e: "wrapper_validate (strptime env) api oauth_token plan label screen_name page_count
      from_date to_date language = Some e"
    by blast
  then have "kind e = ValueError" by (rule wrapper_validate_ValueError)
  then obtain m where "e = Exn ValueError m" by (cases e) simp
  with e show ?thesis by (simp add: wrapper_premium_user_search_def)
qed

lemma strptime_fixed_jan1:
  "strptime_fixed ''201901010000'' = Some \<lparr>year = 2019, month = 1, day = 1, hour = 0, minute = 0\<rparr>"
  by (simp add: strptime_fixed_def digit_val_def days_in_month_def)

lemma strptime_fixed_jan2:
  "strptime_fixed ''201901020000'' = Some \<lparr>year = 2019, month = 1, day = 2, hour = 0, minute = 0\<rparr>"
  by (simp add: strptime_fixed_def digit_val_def days_in_month_def)

lemma demo_env_simps:
  "strptime (demo_env a b c) = strptime_fixed"
  "available_languages (demo_env a b c) = (\<lambda>api. Inr [''en'', ''es''])"
  "requests_post (demo_env a b c) = demo_server a b c"
  by (simp_all add: demo_env_def)

section \<open>The shape of a run\<close>

lemma searches_map_Search: "searches (map Search rs) = rs"
  by (induction rs) simp_all

lemma search_tweets_valid_run:
  assumes "search_tweets_validate (strptime env) api (PyStr tok) (PyStr pl) (PyStr lb) (PyStr q)
             page_count (PyStr fd) (PyStr td) language = None"
    and "int_of page_count = Some pc"
  shows "search_tweets env api (PyStr tok) (PyStr pl) (PyStr lb) (PyStr q) page_count (PyStr fd)
           (PyStr td) language =
         (case search_tweets_language env api q language of
            Inl e \<Rightarrow> \<lparr>outcome = Inl e, calls = [Languages api]\<rparr>
          | Inr q' \<Rightarrow>
              \<lparr>outcome = fst (search_tweets_pages env (search_url pl lb) (search_headers tok) q'
                                fd td pc),
               calls = Languages api # map Search (snd (search_tweets_pages env (search_url pl lb)
                                (search_headers tok) q' fd td pc))\<rparr>)"
  using assms
  by (simp add: search_tweets_def search_url_def search_headers_def split: sum.splits prod.splits)

lemma wrapper_valid_run:
  assumes "wrapper_validate (strptime env) api (PyStr tok) (PyStr pl) (PyStr lb) (PyStr sn)
             page_count (PyStr fd) (PyStr td) language = None"
    and "int_of page_count = Some pc"
  shows "wrapper_premium_user_search env api (PyStr tok) (PyStr pl) (PyStr lb) (PyStr sn) page_count
           (PyStr fd) (PyStr td) language =
         (case wrapper_language env api (''from:'' @ sn) language of
            Inl e \<Rightarrow> \<lparr>outcome = Inl e, calls = [Languages api]\<rparr>
          | Inr q' \<Rightarrow>
              \<lparr>outcome = fst (wrapper_pages env (search_url pl lb) (search_headers tok) q'
                                fd td pc),
               calls = Languages api # map Search (snd (wrapper_pages env (search_url pl lb)
                                (search_headers tok) q' fd td pc))\<rparr>)"
  using assms
  by (simp add: wrapper_premium_user_search_def search_url_def search_headers_def
      split: sum.splits prod.splits)

lemma search_tweets_calls:
  "calls (search_tweets env api oauth_token plan label query page_count from_date to_date language) =
     (if search_tweets_validate (strptime env) api oauth_token plan label query page_count
           from_date to_date language = None
      then Languages api # map Search (searches (calls (search_tweets env api oauth_token plan
             label query page_count from_date to_date language)))
      else [])"
proof (cases "search_tweets_validate (strptime env) api oauth_token plan label query page_count
           from_date to_date language = None")
  case True
  from search_tweets_validate_NoneD [OF True]
  obtain tok pl lb q pc fd td where forms: "oauth_token = PyStr tok" "plan = PyStr pl"
      "label = PyStr lb" "query = PyStr q" "int_of page_count = Some pc" "from_date = PyStr fd"
      "to_date = PyStr td"
    by blast
  show ?thesis
    using True search_tweets_valid_run [OF True [unfolded forms] forms(5)]
    by (simp add: forms searches_map_Search split: sum.splits)
next
  case False
  from search_tweets_invalid [OF False] show ?thesis using False by auto
qed

lemma wrapper_calls:
  "calls (wrapper_premium_user_search env api oauth_token plan label screen_name page_count
            from_date to_date language) =
     (if wrapper_validate (strptime env) api oauth_token plan label screen_name page_count
           from_date to_date language = None
      then Languages api # map Search (searches (calls (wrapper_premium_user_search env api
             oauth_token plan label screen_name page_count from_date to_date language)))
      else [])"
proof (cases "wrapper_validate (strptime env) api oauth_token plan label screen_name page_count
           from_date to_date language = None")
  case True
  from wrapper_validate_NoneD [OF True]
  obtain tok pl lb sn pc fd td where forms: "oauth_token = PyStr tok" "plan = PyStr pl"
      "label = PyStr lb" "screen_name = PyStr sn" "int_of page_count = Some pc"
      "from_date = PyStr fd" "to_date = PyStr td"
    by blast
  show ?thesis
    using True wrapper_valid_run [OF True [unfolded forms] forms(5)]
    by (simp add: forms searches_map_Search split: sum.splits)
next
  case False
  from wrapper_invalid [OF False] show ?thesis using False by auto
qed

section \<open>Runs in the concrete world\<close>

lemma demo_validate:
  assumes "q \<noteq> []" and "int_of page_count = Some n" and "n \<noteq> 0"
    and "truthy language \<longrightarrow> isinstance_str language"
  shows "search_tweets_validate strptime_fixed (PyClient 0) (PyStr ''token'') (PyStr ''30day'')
           (PyStr ''dev'') (PyStr q) page_count (PyStr ''201901010000'') (PyStr ''201901020000'')
           language = None"
  using assms
  unfolding search_tweets_validate_def int_arg_iff
  by (simp add: py_strptime_str strptime_fixed_jan1 strptime_fixed_jan2 datetime_ge_def)

lemma demo_wrapper_validate:
  assumes "q \<noteq> []" and "int_of page_count = Some n" and "n \<noteq> 0"
    and "truthy language \<longrightarrow> isinstance_str language"
  shows "wrapper_validate strptime_fixed (PyClient 0) (PyStr ''token'') (PyStr ''30day'')
           (PyStr ''dev'') (PyStr q) page_count (PyStr ''201901010000'') (PyStr ''201901020000'')
           language = None"
  using assms
  unfolding wrapper_validate_def int_arg_iff
  by (simp add: py_strptime_str strptime_fixed_jan1 strptime_fixed_jan2 datetime_ge_def)

lemma demo_server_first:
  "demo_server (Suc 0) (Suc 0) (Suc 0) [r] =
     \<lparr>status_code = 200, json = \<lparr>results = Some [0], next_key = None\<rparr>\<rparr>"
  by (simp add: demo_server_def)

lemma demo_run_one:
  assumes "q \<noteq> []" and "int_of page_count = Some n" and "n \<noteq> 0"
  shows "search_tweets (demo_env 1 1 1) (PyClient 0) (PyStr ''token'') (PyStr ''30day'')
           (PyStr ''dev'') (PyStr q) page_count (PyStr ''201901010000'') (PyStr ''201901020000'')
           PyNone =
         \<lparr>outcome = Inr [0],
          calls = [Languages (PyClient 0),
                   Search (page_request ''token'' ''30day'' ''dev'' q ''201901010000''
                             ''201901020000'' None)]\<rparr>"
proof -
  have v: "search_tweets_validate (strptime (demo_env 1 1 1)) (PyClient 0) (PyStr ''token'')
           (PyStr ''30day'') (PyStr ''dev'') (PyStr q) page_count (PyStr ''201901010000'')
           (PyStr ''201901020000'') PyNone = None"
    using demo_validate [OF assms] by (simp add: demo_env_simps)
  show ?thesis
    unfolding search_tweets_valid_run [OF v assms(2)]
    by (simp add: search_tweets_language_def search_tweets_pages_def demo_env_simps
        demo_server_first page_request_def Let_def)
qed

lemma demo_wrapper_run_one:
  assumes "q \<noteq> []" and "int_of page_count = Some n" and "n \<noteq> 0"
  shows "wrapper_premium_user_search (demo_env 1 1 1) (PyClient 0) (PyStr ''token'')
           (PyStr ''30day'') (PyStr ''dev'') (PyStr q) page_count (PyStr ''201901010000'')
           (PyStr ''201901020000'') PyNone =
         \<lparr>outcome = Inr [0],
          calls = [Languages (PyClient 0),
                   Search (page_request ''token'' ''30day'' ''dev'' (''from:'' @ q)
                             ''201901010000'' ''201901020000'' None)]\<rparr>"
proof -
  have v: "wrapper_validate (strptime (demo_env 1 1 1)) (PyClient 0) (PyStr ''token'')
           (PyStr ''30day'') (PyStr ''dev'') (PyStr q) page_count (PyStr ''201901010000'')
           (PyStr ''201901020000'') PyNone = None"
    using demo_wrapper_validate [OF assms] by (simp add: demo_env_simps)
  show ?thesis
    unfolding wrapper_valid_run [OF v assms(2)]
    by (simp add: wrapper_language_def wrapper_pages_def demo_env_simps
        demo_server_first page_request_def Let_def)
qed


section \<open>Claims about validation\<close>

text \<open>
  Claim C5. Whenever both date strings parse and the parsed start is not earlier than
  the parsed end, both functions raise \<^verbatim>\<open>ValueError\<close> and call nothing: neither
  \<^verbatim>\<open>available_languages\<close> nor \<^verbatim>\<open>requests.post\<close>. This holds whatever the other
  arguments are, since every earlier check raises \<^verbatim>\<open>ValueError\<close> as well.
\<close>

theorem dates_not_ordered_rejected:
  assumes "strptime env fd = Some start_date" and "strptime env td = Some end_date"
    and "datetime_ge start_date end_date"
  shows "(\<exists>m. outcome (search_tweets env api oauth_token plan label query page_count
                   (PyStr fd) (PyStr td) language) = Inl (Exn ValueError m))
       \<and> calls (search_tweets env api oauth_token plan label query page_count
                   (PyStr fd) (PyStr td) language) = []
       \<and> (\<exists>m. outcome (wrapper_premium_user_search env api oauth_token plan label screen_name
                   page_count (PyStr fd) (PyStr td) language) = Inl (Exn ValueError m))
       \<and> calls (wrapper_premium_user_search env api oauth_token plan label screen_name
                   page_count (PyStr fd) (PyStr td) language) = []"
proof -
  have "search_tweets_validate (strptime env) api oauth_token plan label query page_count
          (PyStr fd) (PyStr td) language \<noteq> None"
  proof
    assume "search_tweets_validate (strptime env) api oauth_token plan label query page_count
          (PyStr fd) (PyStr td) language = None"
    from search_tweets_validate_NoneD [OF this] assms show False by auto
  qed
  from search_tweets_invalid [OF this]
  have s: "(\<exists>m. outcome (search_tweets env api oauth_token plan label query page_count
                   (PyStr fd) (PyStr td) language) = Inl (Exn ValueError m))
       \<and> calls (search_tweets env api oauth_token plan label query page_count
                   (PyStr fd) (PyStr td) language) = []"
    by auto
  have "wrapper_validate (strptime env) api oauth_token plan label screen_name page_count
          (PyStr fd) (PyStr td) language \<noteq> None"
  proof
    assume "wrapper_validate (strptime env) api oauth_token plan label screen_name page_count
          (PyStr fd) (PyStr td) language = None"
    from wrapper_validate_NoneD [OF this] assms show False by auto
  qed
  from wrapper_invalid [OF this]
  have "(\<exists>m. outcome (wrapper_premium_user_search env api oauth_token plan label screen_name
                   page_count (PyStr fd) (PyStr td) language) = Inl (Exn ValueError m))
       \<and> calls (wrapper_premium_user_search env api oauth_token plan label screen_name
                   page_count (PyStr fd) (PyStr td) language) = []"
    by auto
  with s show ?thesis by simp
qed

theorem dates_not_ordered_rejected_witness:
  "strptime (demo_env 1 1 1) ''201901020000''
     = Some \<lparr>year = 2019, month = 1, day = 2, hour = 0, minute = 0\<rparr>
   \<and> strptime (demo_env 1 1 1) ''201901010000''
     = Some \<lparr>year = 2019, month = 1, day = 1, hour = 0, minute = 0\<rparr>
   \<and> datetime_ge \<lparr>year = 2019, month = 1, day = 2, hour = 0, minute = 0\<rparr>
       \<lparr>year = 2019, month = 1, day = 1, hour = 0, minute = 0\<rparr>
   \<and> outcome (search_tweets (demo_env 1 1 1) (PyClient 0) (PyStr ''token'') (PyStr ''30day'')
        (PyStr ''dev'') (PyStr ''isabelle'') (PyInt 2) (PyStr ''201901020000'')
        (PyStr ''201901010000'') PyNone)
     = Inl (Exn ValueError ''incorrect dates, as from_date should be earlier than to_date.'')
   \<and> calls (search_tweets (demo_env 1 1 1) (PyClient 0) (PyStr ''token'') (PyStr ''30day'')
        (PyStr ''dev'') (PyStr ''isabelle'') (PyInt 2) (PyStr ''201901020000'')
        (PyStr ''201901010000'') PyNone) = []
   \<and> calls (wrapper_premium_user_search (demo_env 1 1 1) (PyClient 0) (PyStr ''token'')
        (PyStr ''30day'') (PyStr ''dev'') (PyStr ''isabelle'') (PyInt 2) (PyStr ''201901020000'')
        (PyStr ''201901010000'') PyNone) = []"
proof -
  have h1: "strptime (demo_env 1 1 1) ''201901020000''
     = Some \<lparr>year = 2019, month = 1, day = 2, hour = 0, minute = 0\<rparr>"
    by (simp add: demo_env_simps strptime_fixed_jan2)
  have h2: "strptime (demo_env 1 1 1) ''201901010000''
     = Some \<lparr>year = 2019, month = 1, day = 1, hour = 0, minute = 0\<rparr>"
    by (simp add: demo_env_simps strptime_fixed_jan1)
  have h3: "datetime_ge \<lparr>year = 2019, month = 1, day = 2, hour = 0, minute = 0\<rparr>
       \<lparr>year = 2019, month = 1, day = 1, hour = 0, minute = 0\<rparr>"
    by (simp add: datetime_ge_def)
  have v: "search_tweets_validate strptime_fixed (PyClient 0) (PyStr ''token'') (PyStr ''30day'')
        (PyStr ''dev'') (PyStr ''isabelle'') (PyInt 2) (PyStr ''201901020000'')
        (PyStr ''201901010000'') PyNone
     = Some (Exn ValueError ''incorrect dates, as from_date should be earlier than to_date.'')"
    by (simp add: search_tweets_validate_def py_strptime_str strptime_fixed_jan1
        strptime_fixed_jan2 datetime_ge_def)
  have o: "outcome (search_tweets (demo_env 1 1 1) (PyClient 0) (PyStr ''token'') (PyStr ''30day'')
        (PyStr ''dev'') (PyStr ''isabelle'') (PyInt 2) (PyStr ''201901020000'')
        (PyStr ''201901010000'') PyNone)
     = Inl (Exn ValueError ''incorrect dates, as from_date should be earlier than to_date.'')"
    by (simp add: search_tweets_def demo_env_simps v)
  from dates_not_ordered_rejected [OF h1 h2 h3, of "PyClient 0" "PyStr ''token''" "PyStr ''30day''"
      "PyStr ''dev''" "PyStr ''isabelle''" "PyInt 2" PyNone "PyStr ''isabelle''"]
  show ?thesis using h1 h2 h3 o by simp
qed


text \<open>
  Claim C6, as stated, fails: \<^verbatim>\<open>page_count = -1\<close> is not a positive integer, yet
  lines 60--61 let it pass (it is truthy and an \<^verbatim>\<open>int\<close>), the language lookup and one
  search request are made and the first page is returned.
\<close>

theorem negative_page_count_counterexample:
  "\<not> (0::int) < - 1
   \<and> search_tweets (demo_env 1 1 1) (PyClient 0) (PyStr ''token'') (PyStr ''30day'')
        (PyStr ''dev'') (PyStr ''isabelle'') (PyInt (- 1)) (PyStr ''201901010000'')
        (PyStr ''201901020000'') PyNone =
      \<lparr>outcome = Inr [0],
       calls = [Languages (PyClient 0),
                Search (page_request ''token'' ''30day'' ''dev'' ''isabelle'' ''201901010000''
                          ''201901020000'' None)]\<rparr>"
  using demo_run_one [of "''isabelle''" "PyInt (- 1)" "- 1"] by simp


text \<open>
  Claim C6, amended. When \<^verbatim>\<open>page_count\<close> is not an instance of \<^verbatim>\<open>int\<close>, or is an
  \<^verbatim>\<open>int\<close> of value zero (\<^verbatim>\<open>0\<close> or \<^verbatim>\<open>False\<close>), that is when
  \<^verbatim>\<open>not page_count or not isinstance(page_count, int)\<close> holds (lemma \<open>int_arg_iff\<close>), both
  functions raise \<^verbatim>\<open>ValueError\<close> before any call.
\<close>

theorem page_count_rejected:
  assumes "int_of page_count = None \<or> int_of page_count = Some 0"
  shows "(\<exists>m. outcome (search_tweets env api oauth_token plan label query page_count
                   from_date to_date language) = Inl (Exn ValueError m))
       \<and> calls (search_tweets env api oauth_token plan label query page_count
                   from_date to_date language) = []
       \<and> (\<exists>m. outcome (wrapper_premium_user_search env api oauth_token plan label screen_name
                   page_count from_date to_date language) = Inl (Exn ValueError m))
       \<and> calls (wrapper_premium_user_search env api oauth_token plan label screen_name
                   page_count from_date to_date language) = []"
proof -
  note pc = assms
  have "search_tweets_validate (strptime env) api oauth_token plan label query page_count
          from_date to_date language \<noteq> None"
  proof
    assume "search_tweets_validate (strptime env) api oauth_token plan label query page_count
          from_date to_date language = None"
    from search_tweets_validate_NoneD [OF this] pc show False by auto
  qed
  from search_tweets_invalid [OF this]
  have s: "(\<exists>m. outcome (search_tweets env api oauth_token plan label query page_count
                   from_date to_date language) = Inl (Exn ValueError m))
       \<and> calls (search_tweets env api oauth_token plan label query page_count
                   from_date to_date language) = []"
    by auto
  have "wrapper_validate (strptime env) api oauth_token plan label screen_name page_count
          from_date to_date language \<noteq> None"
  proof
    assume "wrapper_validate (strptime env) api oauth_token plan label screen_name page_count
          from_date to_date language = None"
    from wrapper_validate_NoneD [OF this] pc show False by auto
  qed
  from wrapper_invalid [OF this]
  have "(\<exists>m. outcome (wrapper_premium_user_search env api oauth_token plan label screen_name
                   page_count from_date to_date language) = Inl (Exn ValueError m))
       \<and> calls (wrapper_premium_user_search env api oauth_token plan label screen_name
                   page_count from_date to_date language) = []"
    by auto
  with s show ?thesis by simp
qed

theorem page_count_rejected_witness:
  "int_of (PyInt 0) = Some 0
   \<and> (\<exists>m. outcome (search_tweets (demo_env 1 1 1) (PyClient 0) (PyStr ''token'') (PyStr ''30day'')
        (PyStr ''dev'') (PyStr ''isabelle'') (PyInt 0) (PyStr ''201901010000'')
        (PyStr ''201901020000'') PyNone) = Inl (Exn ValueError m))
   \<and> calls (search_tweets (demo_env 1 1 1) (PyClient 0) (PyStr ''token'') (PyStr ''30day'')
        (PyStr ''dev'') (PyStr ''isabelle'') (PyInt 0) (PyStr ''201901010000'')
        (PyStr ''201901020000'') PyNone) = []
   \<and> (\<exists>m. outcome (wrapper_premium_user_search (demo_env 1 1 1) (PyClient 0) (PyStr ''token'')
        (PyStr ''30day'') (PyStr ''dev'') (PyStr ''isabelle'') (PyInt 0) (PyStr ''201901010000'')
        (PyStr ''201901020000'') PyNone) = Inl (Exn ValueError m))
   \<and> calls (wrapper_premium_user_search (demo_env 1 1 1) (PyClient 0) (PyStr ''token'')
        (PyStr ''30day'') (PyStr ''dev'') (PyStr ''isabelle'') (PyInt 0) (PyStr ''201901010000'')
        (PyStr ''201901020000'') PyNone) = []"
proof -
  have h: "int_of (PyInt 0) = None \<or> int_of (PyInt 0) = Some 0" by simp
  from page_count_rejected [OF h] show ?thesis by simp
qed



text \<open>
  Claim C1, as stated, fails: with \<^verbatim>\<open>language = None\<close> and valid arguments, both
  functions call \<^verbatim>\<open>available_languages(api)\<close> (lines 95--98 and 257--260 are not
  guarded by \<^verbatim>\<open>language\<close>).
\<close>

theorem lookup_without_language_counterexample:
  "lookups (calls (search_tweets (demo_env 1 1 1) (PyClient 0) (PyStr ''token'') (PyStr ''30day'')
        (PyStr ''dev'') (PyStr ''isabelle'') (PyInt 1) (PyStr ''201901010000'')
        (PyStr ''201901020000'') PyNone)) = [PyClient 0]
   \<and> lookups (calls (wrapper_premium_user_search (demo_env 1 1 1) (PyClient 0) (PyStr ''token'')
        (PyStr ''30day'') (PyStr ''dev'') (PyStr ''isabelle'') (PyInt 1) (PyStr ''201901010000'')
        (PyStr ''201901020000'') PyNone)) = [PyClient 0]"
  using demo_run_one [of "''isabelle''" "PyInt 1" 1]
    demo_wrapper_run_one [of "''isabelle''" "PyInt 1" 1]
  by simp


text \<open>
  Claim C1, amended. With \<^verbatim>\<open>language = None\<close>, both functions make no call at all when
  the checks of the arguments fail, and otherwise make exactly one language lookup,
  \<^verbatim>\<open>available_languages(api)\<close>, before any search request.
\<close>

theorem lookup_without_language:
  "calls (search_tweets env api oauth_token plan label query page_count from_date to_date PyNone) =
     (if search_tweets_validate (strptime env) api oauth_token plan label query page_count
           from_date to_date PyNone = None
      then Languages api # map Search (searches (calls (search_tweets env api oauth_token plan
             label query page_count from_date to_date PyNone)))
      else [])
   \<and> calls (wrapper_premium_user_search env api oauth_token plan label screen_name page_count
            from_date to_date PyNone) =
     (if wrapper_validate (strptime env) api oauth_token plan label screen_name page_count
           from_date to_date PyNone = None
      then Languages api # map Search (searches (calls (wrapper_premium_user_search env api
             oauth_token plan label screen_name page_count from_date to_date PyNone)))
      else [])"
  using search_tweets_calls [of env api oauth_token plan label query page_count from_date to_date
      PyNone]
    wrapper_calls [of env api oauth_token plan label screen_name page_count from_date to_date
      PyNone]
  by blast

theorem lookup_without_language_witness:
  "search_tweets_validate (strptime (demo_env 1 1 1)) (PyClient 0) (PyStr ''token'')
     (PyStr ''30day'') (PyStr ''dev'') (PyStr ''isabelle'') (PyInt 1) (PyStr ''201901010000'')
     (PyStr ''201901020000'') PyNone = None
   \<and> calls (search_tweets (demo_env 1 1 1) (PyClient 0) (PyStr ''token'') (PyStr ''30day'')
        (PyStr ''dev'') (PyStr ''isabelle'') (PyInt 1) (PyStr ''201901010000'')
        (PyStr ''201901020000'') PyNone) =
      Languages (PyClient 0) # map Search (searches (calls (search_tweets (demo_env 1 1 1)
        (PyClient 0) (PyStr ''token'') (PyStr ''30day'') (PyStr ''dev'') (PyStr ''isabelle'')
        (PyInt 1) (PyStr ''201901010000'') (PyStr ''201901020000'') PyNone)))
   \<and> search_tweets_validate (strptime (demo_env 1 1 1)) (PyClient 0) (PyStr ''token'')
     (PyStr ''30day'') (PyStr ''dev'') (PyStr ''isabelle'') (PyInt 0) (PyStr ''201901010000'')
     (PyStr ''201901020000'') PyNone
     = Some (Exn ValueError ''page_count must be an `int`!'')
   \<and> calls (search_tweets (demo_env 1 1 1) (PyClient 0) (PyStr ''token'') (PyStr ''30day'')
        (PyStr ''dev'') (PyStr ''isabelle'') (PyInt 0) (PyStr ''201901010000'')
        (PyStr ''201901020000'') PyNone) = []"
proof -
  have v1: "search_tweets_validate (strptime (demo_env 1 1 1)) (PyClient 0) (PyStr ''token'')
     (PyStr ''30day'') (PyStr ''dev'') (PyStr ''isabelle'') (PyInt 1) (PyStr ''201901010000'')
     (PyStr ''201901020000'') PyNone = None"
    using demo_validate [of "''isabelle''" "PyInt 1" 1 PyNone] by (simp add: demo_env_simps)
  have v0: "search_tweets_validate (strptime (demo_env 1 1 1)) (PyClient 0) (PyStr ''token'')
     (PyStr ''30day'') (PyStr ''dev'') (PyStr ''isabelle'') (PyInt 0) (PyStr ''201901010000'')
     (PyStr ''201901020000'') PyNone
     = Some (Exn ValueError ''page_count must be an `int`!'')"
    by (simp add: search_tweets_validate_def)
  from lookup_without_language [of "demo_env 1 1 1" "PyClient 0" "PyStr ''token''"
      "PyStr ''30day''" "PyStr ''dev''" "PyStr ''isabelle''" "PyInt 1" "PyStr ''201901010000''"
      "PyStr ''201901020000''"]
    lookup_without_language [of "demo_env 1 1 1" "PyClient 0" "PyStr ''token''"
      "PyStr ''30day''" "PyStr ''dev''" "PyStr ''isabelle''" "PyInt 0" "PyStr ''201901010000''"
      "PyStr ''201901020000''"]
  show ?thesis using v1 v0 by simp
qed

section \<open>The language filter\<close>

lemma search_tweets_language_unsupported:
  assumes "truthy language" and "available_languages env api = Inr languages"
    and "language \<notin> PyStr ` set languages"
  shows "search_tweets_language env api q language
           = Inl (Exn ValueError ''the introduced language does not exist.'')"
  using assms by (cases language) (auto simp: search_tweets_language_def)

lemma wrapper_language_eq: "wrapper_language env api q language = search_tweets_language env api q language"
  by (simp add: wrapper_language_def search_tweets_language_def)

text \<open>
  Claim C9. When a language is supplied (a truthy value) and the collection returned by
  \<^verbatim>\<open>available_languages(api)\<close> does not contain it, both functions raise
  \<^verbatim>\<open>ValueError\<close> and post no search request. When the checks of the arguments pass,
  the error is that of lines 104 and 266 and the language lookup is the only call;
  otherwise a check of the arguments has raised before any call.
\<close>

theorem unsupported_language_rejected:
  assumes "truthy language" and "available_languages env api = Inr languages"
    and "language \<notin> PyStr ` set languages"
  shows "(\<exists>m. outcome (search_tweets env api oauth_token plan label query page_count
                   from_date to_date language) = Inl (Exn ValueError m))
       \<and> searches (calls (search_tweets env api oauth_token plan label query page_count
                   from_date to_date language)) = []
       \<and> (search_tweets_validate (strptime env) api oauth_token plan label query page_count
             from_date to_date language = None
          \<longrightarrow> search_tweets env api oauth_token plan label query page_count from_date to_date
                language
              = \<lparr>outcome = Inl (Exn ValueError ''the introduced language does not exist.''),
                 calls = [Languages api]\<rparr>)
       \<and> (\<exists>m. outcome (wrapper_premium_user_search env api oauth_token plan label screen_name
                   page_count from_date to_date language) = Inl (Exn ValueError m))
       \<and> searches (calls (wrapper_premium_user_search env api oauth_token plan label screen_name
                   page_count from_date to_date language)) = []
       \<and> (wrapper_validate (strptime env) api oauth_token plan label screen_name page_count
             from_date to_date language = None
          \<longrightarrow> wrapper_premium_user_search env api oauth_token plan label screen_name page_count
                from_date to_date language
              = \<lparr>outcome = Inl (Exn ValueError ''the introduced language does not exist.''),
                 calls = [Languages api]\<rparr>)"
proof -
  have s: "search_tweets env api oauth_token plan label query page_count from_date to_date
                language
              = \<lparr>outcome = Inl (Exn ValueError ''the introduced language does not exist.''),
                 calls = [Languages api]\<rparr>"
    if v: "search_tweets_validate (strptime env) api oauth_token plan label query page_count
             from_date to_date language = None"
  proof -
    from search_tweets_validate_NoneD [OF v]
    obtain tok pl lb q pc fd td where forms: "oauth_token = PyStr tok" "plan = PyStr pl"
      "label = PyStr lb" "query = PyStr q" "int_of page_count = Some pc" "from_date = PyStr fd"
      "to_date = PyStr td"
      by blast
    show ?thesis
      using search_tweets_valid_run [OF v [unfolded forms] forms(5)]
      by (simp add: forms search_tweets_language_unsupported [OF assms])
  qed
  have w: "wrapper_premium_user_search env api oauth_token plan label screen_name page_count
                from_date to_date language
              = \<lparr>outcome = Inl (Exn ValueError ''the introduced language does not exist.''),
                 calls = [Languages api]\<rparr>"
    if v: "wrapper_validate (strptime env) api oauth_token plan label screen_name page_count
             from_date to_date language = None"
  proof -
    from wrapper_validate_NoneD [OF v]
    obtain tok pl lb sn pc fd td where forms: "oauth_token = PyStr tok" "plan = PyStr pl"
      "label = PyStr lb" "screen_name = PyStr sn" "int_of page_count = Some pc"
      "from_date = PyStr fd" "to_date = PyStr td"
      by blast
    show ?thesis
      using wrapper_valid_run [OF v [unfolded forms] forms(5)]
      by (simp add: forms wrapper_language_eq search_tweets_language_unsupported [OF assms])
  qed
  have s': "(\<exists>m. outcome (search_tweets env api oauth_token plan label query page_count
                   from_date to_date language) = Inl (Exn ValueError m))
       \<and> searches (calls (search_tweets env api oauth_token plan label query page_count
                   from_date to_date language)) = []"
  proof (cases "search_tweets_validate (strptime env) api oauth_token plan label query page_count
             from_date to_date language = None")
    case True
    from s [OF True] show ?thesis by simp
  next
    case False
    from search_tweets_invalid [OF False] show ?thesis by auto
  qed
  have w': "(\<exists>m. outcome (wrapper_premium_user_search env api oauth_token plan label screen_name
                   page_count from_date to_date language) = Inl (Exn ValueError m))
       \<and> searches (calls (wrapper_premium_user_search env api oauth_token plan label screen_name
                   page_count from_date to_date language)) = []"
  proof (cases "wrapper_validate (strptime env) api oauth_token plan label screen_name page_count
             from_date to_date language = None")
    case True
    from w [OF True] show ?thesis by simp
  next
    case False
    from wrapper_invalid [OF False] show ?thesis by auto
  qed
  from s s' w w' show ?thesis by blast
qed

theorem unsupported_language_rejected_witness:
  "truthy (PyStr ''xx'')
   \<and> available_languages (demo_env 1 1 1) (PyClient 0) = Inr [''en'', ''es'']
   \<and> PyStr ''xx'' \<notin> PyStr ` set [''en'', ''es'']
   \<and> search_tweets (demo_env 1 1 1) (PyClient 0) (PyStr ''token'') (PyStr ''30day'')
        (PyStr ''dev'') (PyStr ''isabelle'') (PyInt 2) (PyStr ''201901010000'')
        (PyStr ''201901020000'') (PyStr ''xx'')
      = \<lparr>outcome = Inl (Exn ValueError ''the introduced language does not exist.''),
         calls = [Languages (PyClient 0)]\<rparr>
   \<and> wrapper_premium_user_search (demo_env 1 1 1) (PyClient 0) (PyStr ''token'') (PyStr ''30day'')
        (PyStr ''dev'') (PyStr ''isabelle'') (PyInt 2) (PyStr ''201901010000'')
        (PyStr ''201901020000'') (PyStr ''xx'')
      = \<lparr>outcome = Inl (Exn ValueError ''the introduced language does not exist.''),
         calls = [Languages (PyClient 0)]\<rparr>"
proof -
  have h1: "truthy (PyStr ''xx'')" by simp
  have h2: "available_languages (demo_env 1 1 1) (PyClient 0) = Inr [''en'', ''es'']"
    by (simp add: demo_env_simps)
  have h3: "PyStr ''xx'' \<notin> PyStr ` set [''en'', ''es'']" by simp
  have v: "search_tweets_validate (strptime (demo_env 1 1 1)) (PyClient 0) (PyStr ''token'')
     (PyStr ''30day'') (PyStr ''dev'') (PyStr ''isabelle'') (PyInt 2) (PyStr ''201901010000'')
     (PyStr ''201901020000'') (PyStr ''xx'') = None"
    using demo_validate [of "''isabelle''" "PyInt 2" 2 "PyStr ''xx''"]
    by (simp add: demo_env_simps)
  have w: "wrapper_validate (strptime (demo_env 1 1 1)) (PyClient 0) (PyStr ''token'')
     (PyStr ''30day'') (PyStr ''dev'') (PyStr ''isabelle'') (PyInt 2) (PyStr ''201901010000'')
     (PyStr ''201901020000'') (PyStr ''xx'') = None"
    using demo_wrapper_validate [of "''isabelle''" "PyInt 2" 2 "PyStr ''xx''"]
    by (simp add: demo_env_simps)
  from unsupported_language_rejected [OF h1 h2 h3, of "PyStr ''token''" "PyStr ''30day''"
      "PyStr ''dev''" "PyStr ''isabelle''" "PyInt 2" "PyStr ''201901010000''"
      "PyStr ''201901020000''" "PyStr ''isabelle''"]
  show ?thesis using h1 h2 h3 v w by simp
qed

section \<open>Pages\<close>

lemma page_request_eq:
  "\<lparr>post_url = search_url pl lb, post_headers = search_headers tok,
     post_data = \<lparr>data_query = q, fromDate = fd, toDate = td, maxResults = 100,
                  data_next = nxt\<rparr>\<rparr> = page_request tok pl lb q fd td nxt"
  by (simp add: page_request_def)

lemma wrapper_follow_eq:
  "wrapper_follow env url headers q fd td n np tweets sent
     = search_tweets_follow env url headers q fd td n np tweets sent"
  by (induction n arbitrary: np tweets sent) (simp_all add: Let_def split: option.splits)

lemma search_tweets_follow_fail:
  assumes "status_code (requests_post env (sent @ [page_request tok pl lb q fd td (Some np)])) \<noteq> 200"
  shows "search_tweets_follow env (search_url pl lb) (search_headers tok) q fd td n np tweets sent
           = (tweets, if n = 0 then sent else sent @ [page_request tok pl lb q fd td (Some np)])"
  using assms by (cases n) (simp_all add: Let_def page_request_eq)

lemma search_tweets_pages_fail:
  assumes "status_code (requests_post env [page_request tok pl lb q fd td None]) \<noteq> 200"
  shows "search_tweets_pages env (search_url pl lb) (search_headers tok) q fd td pc =
     (Inl (Exn ConnectionError
        (''connection to api.twitter could not be established, with error         code ''
           @ str_int (status_code (requests_post env [page_request tok pl lb q fd td None])))),
      [page_request tok pl lb q fd td None])"
  using assms by (simp add: search_tweets_pages_def Let_def page_request_eq)

lemma wrapper_pages_fail:
  assumes "status_code (requests_post env [page_request tok pl lb q fd td None]) \<noteq> 200"
  shows "wrapper_pages env (search_url pl lb) (search_headers tok) q fd td pc =
     (Inl (Exn ConnectionError
        (''connection to api.twitter could not be established, with error             code ''
           @ str_int (status_code (requests_post env [page_request tok pl lb q fd td None])))),
      [page_request tok pl lb q fd td None])"
  using assms by (simp add: wrapper_pages_def Let_def page_request_eq)

lemma str_int_503: "str_int 503 = ''503''"
  by code_simp

lemma demo_language_none: "search_tweets_language (demo_env a b c) api q PyNone = Inr q"
  by (simp add: search_tweets_language_def demo_env_simps)

lemma demo_language_en:
  "search_tweets_language (demo_env a b c) api q (PyStr ''en'') = Inr (q @ '' lang:en'')"
  by (simp add: search_tweets_language_def demo_env_simps)

text \<open>
  Claim C4. When the checks of the arguments have passed and the language filter has
  produced the query of the first request, a first response whose status is not 200
  makes both functions raise \<^verbatim>\<open>ConnectionError\<close> (lines 119--121 and 281--283), and
  the first request is the only search request of the call.
\<close>

theorem first_page_failure:
  "(search_tweets_validate (strptime env) api (PyStr tok) (PyStr pl) (PyStr lb) (PyStr q)
      page_count (PyStr fd) (PyStr td) language = None
    \<longrightarrow> search_tweets_language env api q language = Inr q'
    \<longrightarrow> status_code (requests_post env [page_request tok pl lb q' fd td None]) \<noteq> 200
    \<longrightarrow> search_tweets env api (PyStr tok) (PyStr pl) (PyStr lb) (PyStr q) page_count (PyStr fd)
          (PyStr td) language =
        \<lparr>outcome = Inl (Exn ConnectionError
           (''connection to api.twitter could not be established, with error         code ''
              @ str_int (status_code (requests_post env [page_request tok pl lb q' fd td None])))),
         calls = [Languages api, Search (page_request tok pl lb q' fd td None)]\<rparr>)
   \<and> (wrapper_validate (strptime env) api (PyStr tok) (PyStr pl) (PyStr lb) (PyStr sn)
      page_count (PyStr fd) (PyStr td) language = None
    \<longrightarrow> wrapper_language env api (''from:'' @ sn) language = Inr qw
    \<longrightarrow> status_code (requests_post env [page_request tok pl lb qw fd td None]) \<noteq> 200
    \<longrightarrow> wrapper_premium_user_search env api (PyStr tok) (PyStr pl) (PyStr lb) (PyStr sn)
          page_count (PyStr fd) (PyStr td) language =
        \<lparr>outcome = Inl (Exn ConnectionError
           (''connection to api.twitter could not be established, with error             code ''
              @ str_int (status_code (requests_post env [page_request tok pl lb qw fd td None])))),
         calls = [Languages api, Search (page_request tok pl lb qw fd td None)]\<rparr>)"
proof (intro conjI impI)
  assume v: "search_tweets_validate (strptime env) api (PyStr tok) (PyStr pl) (PyStr lb) (PyStr q)
      page_count (PyStr fd) (PyStr td) language = None"
    and l: "search_tweets_language env api q language = Inr q'"
    and f: "status_code (requests_post env [page_request tok pl lb q' fd td None]) \<noteq> 200"
  from search_tweets_validate_NoneD [OF v] obtain pc where pc: "int_of page_count = Some pc"
    by blast
  show "search_tweets env api (PyStr tok) (PyStr pl) (PyStr lb) (PyStr q) page_count (PyStr fd)
          (PyStr td) language =
        \<lparr>outcome = Inl (Exn ConnectionError
           (''connection to api.twitter could not be established, with error         code ''
              @ str_int (status_code (requests_post env [page_request tok pl lb q' fd td None])))),
         calls = [Languages api, Search (page_request tok pl lb q' fd td None)]\<rparr>"
    unfolding search_tweets_valid_run [OF v pc] l
    by (simp add: search_tweets_pages_fail [OF f])
next
  assume v: "wrapper_validate (strptime env) api (PyStr tok) (PyStr pl) (PyStr lb) (PyStr sn)
      page_count (PyStr fd) (PyStr td) language = None"
    and l: "wrapper_language env api (''from:'' @ sn) language = Inr qw"
    and f: "status_code (requests_post env [page_request tok pl lb qw fd td None]) \<noteq> 200"
  from wrapper_validate_NoneD [OF v] obtain pc where pc: "int_of page_count = Some pc"
    by blast
  show "wrapper_premium_user_search env api (PyStr tok) (PyStr pl) (PyStr lb) (PyStr sn)
          page_count (PyStr fd) (PyStr td) language =
        \<lparr>outcome = Inl (Exn ConnectionError
           (''connection to api.twitter could not be established, with error             code ''
              @ str_int (status_code (requests_post env [page_request tok pl lb qw fd td None])))),
         calls = [Languages api, Search (page_request tok pl lb qw fd td None)]\<rparr>"
    unfolding wrapper_valid_run [OF v pc] l
    by (simp add: wrapper_pages_fail [OF f])
qed

theorem first_page_failure_witness:
  "search_tweets (demo_env 2 0 2) (PyClient 0) (PyStr ''token'') (PyStr ''30day'') (PyStr ''dev'')
     (PyStr ''isabelle'') (PyInt 3) (PyStr ''201901010000'') (PyStr ''201901020000'')
     (PyStr ''en'') =
   \<lparr>outcome = Inl (Exn ConnectionError
      ''connection to api.twitter could not be established, with error         code 503''),
    calls = [Languages (PyClient 0),
             Search (page_request ''token'' ''30day'' ''dev'' ''isabelle lang:en''
                       ''201901010000'' ''201901020000'' None)]\<rparr>
   \<and> wrapper_premium_user_search (demo_env 2 0 2) (PyClient 0) (PyStr ''token'') (PyStr ''30day'')
     (PyStr ''dev'') (PyStr ''isabelle'') (PyInt 3) (PyStr ''201901010000'')
     (PyStr ''201901020000'') (PyStr ''en'') =
   \<lparr>outcome = Inl (Exn ConnectionError
      ''connection to api.twitter could not be established, with error             code 503''),
    calls = [Languages (PyClient 0),
             Search (page_request ''token'' ''30day'' ''dev'' ''from:isabelle lang:en''
                       ''201901010000'' ''201901020000'' None)]\<rparr>"
proof -
  have v: "search_tweets_validate (strptime (demo_env 2 0 2)) (PyClient 0) (PyStr ''token'')
     (PyStr ''30day'') (PyStr ''dev'') (PyStr ''isabelle'') (PyInt 3) (PyStr ''201901010000'')
     (PyStr ''201901020000'') (PyStr ''en'') = None"
    using demo_validate [of "''isabelle''" "PyInt 3" 3 "PyStr ''en''"]
    by (simp add: demo_env_simps)
  have w: "wrapper_validate (strptime (demo_env 2 0 2)) (PyClient 0) (PyStr ''token'')
     (PyStr ''30day'') (PyStr ''dev'') (PyStr ''isabelle'') (PyInt 3) (PyStr ''201901010000'')
     (PyStr ''201901020000'') (PyStr ''en'') = None"
    using demo_wrapper_validate [of "''isabelle''" "PyInt 3" 3 "PyStr ''en''"]
    by (simp add: demo_env_simps)
  have l: "search_tweets_language (demo_env 2 0 2) (PyClient 0) ''isabelle'' (PyStr ''en'')
             = Inr ''isabelle lang:en''"
    by (simp add: demo_language_en)
  have l': "wrapper_language (demo_env 2 0 2) (PyClient 0) (''from:'' @ ''isabelle'') (PyStr ''en'')
             = Inr ''from:isabelle lang:en''"
    by (simp add: wrapper_language_eq demo_language_en)
  have f: "status_code (requests_post (demo_env 2 0 2) [r]) = 503" for r
    by (simp add: demo_env_simps demo_server_def)
  from first_page_failure [where env = "demo_env 2 0 2" and api = "PyClient 0"
      and tok = "''token''" and pl = "''30day''" and lb = "''dev''" and q = "''isabelle''"
      and page_count = "PyInt 3" and fd = "''201901010000''" and td = "''201901020000''"
      and language = "PyStr ''en''" and q' = "''isabelle lang:en''" and sn = "''isabelle''"
      and qw = "''from:isabelle lang:en''"]
  show ?thesis using v w l l' by (simp add: f str_int_503)
qed

lemma demo_post: "requests_post (demo_env a b c) sent = demo_server a b c sent"
  by (simp add: demo_env_simps)

lemma str_nat_2: "str_nat (Suc (Suc 0)) = ''2''"
  by code_simp

lemma str_nat_3: "str_nat (Suc (Suc (Suc 0))) = ''3''"
  by code_simp


lemma search_tweets_pages_aggregate:
  assumes "search_tweets_aggregate env url headers q fd td pc = Some tweets"
  shows "fst (search_tweets_pages env url headers q fd td pc) =
           (if tweets = [] then
              Inl (Exn IndexError
                (if next_key (json (requests_post env
                      [\<lparr>post_url = url, post_headers = headers,
                         post_data = \<lparr>data_query = q, fromDate = fd, toDate = td,
                                      maxResults = 100, data_next = None\<rparr>\<rparr>])) = None
                 then '' no tweets could be retrieved.'' else ''no tweets could be retrieved.''))
            else Inr tweets)"
  using assms
  by (auto simp: search_tweets_aggregate_def search_tweets_pages_def Let_def
      split: if_splits option.splits prod.splits)

lemma search_tweets_aggregate_reached:
  assumes "status_code (requests_post env [page_request tok pl lb q fd td None]) = 200"
    and "results (json (requests_post env [page_request tok pl lb q fd td None])) = Some page"
  shows "\<exists>tweets. search_tweets_aggregate env (search_url pl lb) (search_headers tok) q fd td pc
           = Some tweets"
  using assms
  by (simp add: search_tweets_aggregate_def Let_def page_request_eq split: option.splits)


text \<open>
  Claim C3 (for \<^verbatim>\<open>search_tweets\<close>). After the checks and the language filter, when
  the first response has status 200, a non-empty \<^verbatim>\<open>'results'\<close> array and a \<^verbatim>\<open>'next'\<close>
  token, and the answer to the first continuation request has a status other than 200,
  the call returns exactly the items of the first page and raises nothing. The
  continuation request is posted when \<^verbatim>\<open>page_count\<close> exceeds one; otherwise the loop
  of line 138 does not run and no continuation request exists.
\<close>

theorem continuation_failure_keeps_first_page:
  assumes v: "search_tweets_validate (strptime env) api (PyStr tok) (PyStr pl) (PyStr lb) (PyStr q)
      page_count (PyStr fd) (PyStr td) language = None"
    and pc: "int_of page_count = Some pc"
    and l: "search_tweets_language env api q language = Inr q'"
    and s1: "status_code (requests_post env [page_request tok pl lb q' fd td None]) = 200"
    and r1: "results (json (requests_post env [page_request tok pl lb q' fd td None])) = Some page"
    and ne: "page \<noteq> []"
    and n1: "next_key (json (requests_post env [page_request tok pl lb q' fd td None])) = Some t"
    and s2: "status_code (requests_post env [page_request tok pl lb q' fd td None,
                page_request tok pl lb q' fd td (Some t)]) \<noteq> 200"
  shows "search_tweets env api (PyStr tok) (PyStr pl) (PyStr lb) (PyStr q) page_count (PyStr fd)
           (PyStr td) language =
         \<lparr>outcome = Inr page,
          calls = Languages api # Search (page_request tok pl lb q' fd td None)
                    # (if pc \<le> 1 then [] else [Search (page_request tok pl lb q' fd td (Some t))])\<rparr>"
proof -
  have f: "search_tweets_follow env (search_url pl lb) (search_headers tok) q' fd td
             (nat (pc - 1)) t page [page_request tok pl lb q' fd td None]
           = (page, if pc \<le> 1 then [page_request tok pl lb q' fd td None]
                    else [page_request tok pl lb q' fd td None,
                          page_request tok pl lb q' fd td (Some t)])"
    using search_tweets_follow_fail [of env "[page_request tok pl lb q' fd td None]" tok pl lb q'
        fd td t "nat (pc - 1)" page] s2
    by auto
  show ?thesis
    unfolding search_tweets_valid_run [OF v pc] l
    using s1 r1 ne n1
    by (simp add: search_tweets_pages_def Let_def page_request_eq f)
qed


theorem continuation_failure_keeps_first_page_witness:
  "search_tweets (demo_env 2 1 3) (PyClient 0) (PyStr ''token'') (PyStr ''30day'') (PyStr ''dev'')
     (PyStr ''isabelle'') (PyInt 3) (PyStr ''201901010000'') (PyStr ''201901020000'') PyNone =
   \<lparr>outcome = Inr [0, 1],
    calls = [Languages (PyClient 0),
             Search (page_request ''token'' ''30day'' ''dev'' ''isabelle'' ''201901010000''
                       ''201901020000'' None),
             Search (page_request ''token'' ''30day'' ''dev'' ''isabelle'' ''201901010000''
                       ''201901020000'' (Some ''page2''))]\<rparr>"
proof -
  let ?r1 = "page_request ''token'' ''30day'' ''dev'' ''isabelle'' ''201901010000''
               ''201901020000'' None"
  let ?r2 = "page_request ''token'' ''30day'' ''dev'' ''isabelle'' ''201901010000''
               ''201901020000'' (Some ''page2'')"
  have v: "search_tweets_validate (strptime (demo_env 2 1 3)) (PyClient 0) (PyStr ''token'')
     (PyStr ''30day'') (PyStr ''dev'') (PyStr ''isabelle'') (PyInt 3) (PyStr ''201901010000'')
     (PyStr ''201901020000'') PyNone = None"
    using demo_validate [of "''isabelle''" "PyInt 3" 3 PyNone] by (simp add: demo_env_simps)
  have pc: "int_of (PyInt 3) = Some 3" by simp
  have l: "search_tweets_language (demo_env 2 1 3) (PyClient 0) ''isabelle'' PyNone
             = Inr ''isabelle''"
    by (rule demo_language_none)
  have s1: "status_code (requests_post (demo_env 2 1 3) [?r1]) = 200"
    by (simp add: demo_post demo_server_def str_nat_2 str_nat_3)
  have r1: "results (json (requests_post (demo_env 2 1 3) [?r1])) = Some [0, 1]"
    by (simp add: demo_post demo_server_def upt_rec)
  have ne: "[0, 1 :: nat] \<noteq> []" by simp
  have n1: "next_key (json (requests_post (demo_env 2 1 3) [?r1])) = Some ''page2''"
    by (simp add: demo_post demo_server_def str_nat_2 str_nat_3)
  have s2: "status_code (requests_post (demo_env 2 1 3) [?r1, ?r2]) \<noteq> 200"
    by (simp add: demo_post demo_server_def str_nat_2 str_nat_3)
  from continuation_failure_keeps_first_page [OF v pc l s1 r1 ne n1 s2]
  show ?thesis by simp
qed

text \<open>
  Claim C7 (for \<^verbatim>\<open>search_tweets\<close>). When the first response has status 200 and a
  \<^verbatim>\<open>'results'\<close> key, control reaches lines 130--134 or 166--169 with some list
  \<^verbatim>\<open>tweets\<close>; the call returns that list exactly when it is not empty, returns no
  other list, and for the empty list raises \<^verbatim>\<open>IndexError\<close> with the text
  \<^verbatim>\<open>no tweets could be retrieved.\<close> (line 134 writes it with a leading space).
\<close>

theorem finalization:
  assumes v: "search_tweets_validate (strptime env) api (PyStr tok) (PyStr pl) (PyStr lb) (PyStr q)
      page_count (PyStr fd) (PyStr td) language = None"
    and pc: "int_of page_count = Some pc"
    and l: "search_tweets_language env api q language = Inr q'"
    and s1: "status_code (requests_post env [page_request tok pl lb q' fd td None]) = 200"
    and r1: "results (json (requests_post env [page_request tok pl lb q' fd td None])) = Some page"
  shows "\<exists>tweets.
           search_tweets_aggregate env (search_url pl lb) (search_headers tok) q' fd td pc
             = Some tweets
         \<and> (outcome (search_tweets env api (PyStr tok) (PyStr pl) (PyStr lb) (PyStr q) page_count
                (PyStr fd) (PyStr td) language) = Inr tweets \<longleftrightarrow> tweets \<noteq> [])
         \<and> (\<forall>ts. outcome (search_tweets env api (PyStr tok) (PyStr pl) (PyStr lb) (PyStr q)
                page_count (PyStr fd) (PyStr td) language) = Inr ts \<longrightarrow> ts = tweets)
         \<and> (tweets = [] \<longrightarrow>
              outcome (search_tweets env api (PyStr tok) (PyStr pl) (PyStr lb) (PyStr q) page_count
                (PyStr fd) (PyStr td) language)
                = Inl (Exn IndexError ''no tweets could be retrieved.'')
            \<or> outcome (search_tweets env api (PyStr tok) (PyStr pl) (PyStr lb) (PyStr q) page_count
                (PyStr fd) (PyStr td) language)
                = Inl (Exn IndexError '' no tweets could be retrieved.''))"
proof -
  from search_tweets_aggregate_reached [OF s1 r1]
  obtain tweets where a: "search_tweets_aggregate env (search_url pl lb) (search_headers tok) q'
      fd td pc = Some tweets"
    by blast
  have o: "outcome (search_tweets env api (PyStr tok) (PyStr pl) (PyStr lb) (PyStr q) page_count
                (PyStr fd) (PyStr td) language)
           = fst (search_tweets_pages env (search_url pl lb) (search_headers tok) q' fd td pc)"
    unfolding search_tweets_valid_run [OF v pc] l by simp
  show ?thesis
    unfolding o search_tweets_pages_aggregate [OF a]
    using a by auto
qed


theorem finalization_witness:
  "search_tweets_aggregate (demo_env 0 2 2) (search_url ''30day'' ''dev'')
     (search_headers ''token'') ''isabelle'' ''201901010000'' ''201901020000'' 2 = Some []
   \<and> outcome (search_tweets (demo_env 0 2 2) (PyClient 0) (PyStr ''token'') (PyStr ''30day'')
       (PyStr ''dev'') (PyStr ''isabelle'') (PyInt 2) (PyStr ''201901010000'')
       (PyStr ''201901020000'') PyNone) \<noteq> Inr []
   \<and> search_tweets_aggregate (demo_env 2 2 2) (search_url ''30day'' ''dev'')
     (search_headers ''token'') ''isabelle'' ''201901010000'' ''201901020000'' 2
     = Some [0, 1, 2, 3]
   \<and> outcome (search_tweets (demo_env 2 2 2) (PyClient 0) (PyStr ''token'') (PyStr ''30day'')
       (PyStr ''dev'') (PyStr ''isabelle'') (PyInt 2) (PyStr ''201901010000'')
       (PyStr ''201901020000'') PyNone) = Inr [0, 1, 2, 3]"
proof -
  let ?r1 = "page_request ''token'' ''30day'' ''dev'' ''isabelle'' ''201901010000''
               ''201901020000'' None"
  have v: "search_tweets_validate (strptime (demo_env a 2 2)) (PyClient 0) (PyStr ''token'')
     (PyStr ''30day'') (PyStr ''dev'') (PyStr ''isabelle'') (PyInt 2) (PyStr ''201901010000'')
     (PyStr ''201901020000'') PyNone = None" for a
    using demo_validate [of "''isabelle''" "PyInt 2" 2 PyNone] by (simp add: demo_env_simps)
  have pc: "int_of (PyInt 2) = Some 2" by simp
  have l: "search_tweets_language (demo_env a 2 2) (PyClient 0) ''isabelle'' PyNone
             = Inr ''isabelle''" for a
    by (rule demo_language_none)
  have s1: "status_code (requests_post (demo_env a 2 2) [?r1]) = 200" for a
    by (simp add: demo_post demo_server_def str_nat_2 str_nat_3)
  have r0: "results (json (requests_post (demo_env 0 2 2) [?r1])) = Some []"
    by (simp add: demo_post demo_server_def str_nat_2 str_nat_3)
  have r2: "results (json (requests_post (demo_env 2 2 2) [?r1])) = Some [0, 1]"
    by (simp add: demo_post demo_server_def upt_rec)
  have a0: "search_tweets_aggregate (demo_env 0 2 2) (search_url ''30day'' ''dev'')
     (search_headers ''token'') ''isabelle'' ''201901010000'' ''201901020000'' 2 = Some []"
    by (simp add: search_tweets_aggregate_def Let_def demo_post demo_server_def)
  have a2: "search_tweets_aggregate (demo_env 2 2 2) (search_url ''30day'' ''dev'')
     (search_headers ''token'') ''isabelle'' ''201901010000'' ''201901020000'' 2
     = Some [0, 1, 2, 3]"
    by (simp add: search_tweets_aggregate_def Let_def demo_post demo_server_def upt_rec)
  from finalization [OF v pc l s1 r0] obtain t0
    where "search_tweets_aggregate (demo_env 0 2 2) (search_url ''30day'' ''dev'')
             (search_headers ''token'') ''isabelle'' ''201901010000'' ''201901020000'' 2 = Some t0"
      and i0: "(outcome (search_tweets (demo_env 0 2 2) (PyClient 0) (PyStr ''token'')
                 (PyStr ''30day'') (PyStr ''dev'') (PyStr ''isabelle'') (PyInt 2)
                 (PyStr ''201901010000'') (PyStr ''201901020000'') PyNone) = Inr t0) = (t0 \<noteq> [])"
    by blast
  with a0 have t0: "t0 = []" by simp
  from finalization [OF v pc l s1 r2] obtain t2
    where "search_tweets_aggregate (demo_env 2 2 2) (search_url ''30day'' ''dev'')
             (search_headers ''token'') ''isabelle'' ''201901010000'' ''201901020000'' 2 = Some t2"
      and i2: "(outcome (search_tweets (demo_env 2 2 2) (PyClient 0) (PyStr ''token'')
                 (PyStr ''30day'') (PyStr ''dev'') (PyStr ''isabelle'') (PyInt 2)
                 (PyStr ''201901010000'') (PyStr ''201901020000'') PyNone) = Inr t2) = (t2 \<noteq> [])"
    by blast
  with a2 have t2: "t2 = [0, 1, 2, 3]" by simp
  from i0 i2 a0 a2 show ?thesis unfolding t0 t2 by simp
qed

text \<open>
  Claim C8 (for \<^verbatim>\<open>search_tweets\<close>). With \<^verbatim>\<open>page_count = 3\<close>, when the first two
  responses carry 100 items and a token each and the third carries 100 items and no
  token, the call returns the 300 items, the pages concatenated in the order they were
  fetched, and posts exactly three search requests, the second and the third carrying
  the token of the page before. The calls to \<^verbatim>\<open>requests.post\<close> are the HTTP calls
  counted; the trace begins with the one call of \<^verbatim>\<open>available_languages\<close>, which
  precedes them whatever \<^verbatim>\<open>language\<close> is.
\<close>

theorem three_pages:
  assumes v: "search_tweets_validate (strptime env) api (PyStr tok) (PyStr pl) (PyStr lb) (PyStr q)
      (PyInt 3) (PyStr fd) (PyStr td) language = None"
    and l: "search_tweets_language env api q language = Inr q'"
    and s1: "status_code (requests_post env [page_request tok pl lb q' fd td None]) = 200"
    and r1: "results (json (requests_post env [page_request tok pl lb q' fd td None])) = Some p1"
    and n1: "next_key (json (requests_post env [page_request tok pl lb q' fd td None])) = Some t1"
    and s2: "status_code (requests_post env [page_request tok pl lb q' fd td None,
                page_request tok pl lb q' fd td (Some t1)]) = 200"
    and r2: "results (json (requests_post env [page_request tok pl lb q' fd td None,
                page_request tok pl lb q' fd td (Some t1)])) = Some p2"
    and n2: "next_key (json (requests_post env [page_request tok pl lb q' fd td None,
                page_request tok pl lb q' fd td (Some t1)])) = Some t2"
    and s3: "status_code (requests_post env [page_request tok pl lb q' fd td None,
                page_request tok pl lb q' fd td (Some t1),
                page_request tok pl lb q' fd td (Some t2)]) = 200"
    and r3: "results (json (requests_post env [page_request tok pl lb q' fd td None,
                page_request tok pl lb q' fd td (Some t1),
                page_request tok pl lb q' fd td (Some t2)])) = Some p3"
    and n3: "next_key (json (requests_post env [page_request tok pl lb q' fd td None,
                page_request tok pl lb q' fd td (Some t1),
                page_request tok pl lb q' fd td (Some t2)])) = None"
    and len: "length p1 = 100" "length p2 = 100" "length p3 = 100"
  shows "outcome (search_tweets env api (PyStr tok) (PyStr pl) (PyStr lb) (PyStr q) (PyInt 3)
           (PyStr fd) (PyStr td) language) = Inr (p1 @ p2 @ p3)
       \<and> length (p1 @ p2 @ p3) = 300
       \<and> calls (search_tweets env api (PyStr tok) (PyStr pl) (PyStr lb) (PyStr q) (PyInt 3)
           (PyStr fd) (PyStr td) language)
          = [Languages api, Search (page_request tok pl lb q' fd td None),
             Search (page_request tok pl lb q' fd td (Some t1)),
             Search (page_request tok pl lb q' fd td (Some t2))]
       \<and> searches (calls (search_tweets env api (PyStr tok) (PyStr pl) (PyStr lb) (PyStr q) (PyInt 3)
           (PyStr fd) (PyStr td) language))
          = [page_request tok pl lb q' fd td None, page_request tok pl lb q' fd td (Some t1),
             page_request tok pl lb q' fd td (Some t2)]
       \<and> length (searches (calls (search_tweets env api (PyStr tok) (PyStr pl) (PyStr lb) (PyStr q)
           (PyInt 3) (PyStr fd) (PyStr td) language))) = 3"
proof -
  have f: "search_tweets_follow env (search_url pl lb) (search_headers tok) q' fd td
             2 t1 p1 [page_request tok pl lb q' fd td None]
           = (p1 @ p2 @ p3,
              [page_request tok pl lb q' fd td None, page_request tok pl lb q' fd td (Some t1),
               page_request tok pl lb q' fd td (Some t2)])"
    unfolding numeral_2_eq_2
    using s2 r2 n2 s3 r3 n3
    by (simp add: Let_def page_request_eq)
  have p: "search_tweets_pages env (search_url pl lb) (search_headers tok) q' fd td 3
           = (Inr (p1 @ p2 @ p3),
              [page_request tok pl lb q' fd td None, page_request tok pl lb q' fd td (Some t1),
               page_request tok pl lb q' fd td (Some t2)])"
    using s1 r1 n1 len
    by (auto simp add: search_tweets_pages_def Let_def page_request_eq f)
  have pc: "int_of (PyInt 3) = Some 3" by simp
  show ?thesis
    unfolding search_tweets_valid_run [OF v pc] l
    using len by (simp add: p)
qed

theorem three_pages_witness:
  "outcome (search_tweets (demo_env 100 3 3) (PyClient 0) (PyStr ''token'') (PyStr ''30day'')
     (PyStr ''dev'') (PyStr ''isabelle'') (PyInt 3) (PyStr ''201901010000'')
     (PyStr ''201901020000'') PyNone) = Inr ([0..<100] @ [100..<200] @ [200..<300])
   \<and> length (searches (calls (search_tweets (demo_env 100 3 3) (PyClient 0) (PyStr ''token'')
     (PyStr ''30day'') (PyStr ''dev'') (PyStr ''isabelle'') (PyInt 3) (PyStr ''201901010000'')
     (PyStr ''201901020000'') PyNone))) = 3"
proof -
  let ?r1 = "page_request ''token'' ''30day'' ''dev'' ''isabelle'' ''201901010000''
               ''201901020000'' None"
  let ?r2 = "page_request ''token'' ''30day'' ''dev'' ''isabelle'' ''201901010000''
               ''201901020000'' (Some ''page2'')"
  let ?r3 = "page_request ''token'' ''30day'' ''dev'' ''isabelle'' ''201901010000''
               ''201901020000'' (Some ''page3'')"
  have v: "search_tweets_validate (strptime (demo_env 100 3 3)) (PyClient 0) (PyStr ''token'')
     (PyStr ''30day'') (PyStr ''dev'') (PyStr ''isabelle'') (PyInt 3) (PyStr ''201901010000'')
     (PyStr ''201901020000'') PyNone = None"
    using demo_validate [of "''isabelle''" "PyInt 3" 3 PyNone] by (simp add: demo_env_simps)
  have l: "search_tweets_language (demo_env 100 3 3) (PyClient 0) ''isabelle'' PyNone
             = Inr ''isabelle''"
    by (rule demo_language_none)
  have s1: "status_code (requests_post (demo_env 100 3 3) [?r1]) = 200"
    by (simp add: demo_post demo_server_def str_nat_2 str_nat_3)
  have r1: "results (json (requests_post (demo_env 100 3 3) [?r1])) = Some [0..<100]"
    by (simp add: demo_post demo_server_def del: upt_rec_numeral)
  have n1: "next_key (json (requests_post (demo_env 100 3 3) [?r1])) = Some ''page2''"
    by (simp add: demo_post demo_server_def str_nat_2 str_nat_3)
  have s2: "status_code (requests_post (demo_env 100 3 3) [?r1, ?r2]) = 200"
    by (simp add: demo_post demo_server_def str_nat_2 str_nat_3)
  have r2: "results (json (requests_post (demo_env 100 3 3) [?r1, ?r2])) = Some [100..<200]"
    by (simp add: demo_post demo_server_def del: upt_rec_numeral)
  have n2: "next_key (json (requests_post (demo_env 100 3 3) [?r1, ?r2]))
              = Some ''page3''"
    by (simp add: demo_post demo_server_def str_nat_2 str_nat_3)
  have s3: "status_code (requests_post (demo_env 100 3 3) [?r1, ?r2, ?r3]) = 200"
    by (simp add: demo_post demo_server_def str_nat_2 str_nat_3)
  have r3: "results (json (requests_post (demo_env 100 3 3) [?r1, ?r2, ?r3])) = Some [200..<300]"
    by (simp add: demo_post demo_server_def del: upt_rec_numeral)
  have n3: "next_key (json (requests_post (demo_env 100 3 3) [?r1, ?r2, ?r3])) = None"
    by (simp add: demo_post demo_server_def str_nat_2 str_nat_3)
  have len: "length [0..<100::nat] = 100" "length [100..<200::nat] = 100"
    "length [200..<300::nat] = 100"
    by simp_all
  from three_pages [OF v l s1 r1 n1 s2 r2 n2 s3 r3 n3 len]
  show ?thesis by blast
qed

section \<open>A page budget of one or less\<close>

lemma search_tweets_validate_page_count:
  assumes "int_of page_count = Some pc"
  shows "(search_tweets_validate strp api oauth_token plan label query page_count from_date
            to_date language = None)
         = (pc \<noteq> 0 \<and> search_tweets_validate strp api oauth_token plan label query (PyInt 1)
                         from_date to_date language = None)"
  unfolding search_tweets_validate_def if_Some_Some if_Some_eq_None case_sum_eq_None int_arg_iff
  using assms by auto

lemma wrapper_validate_page_count:
  assumes "int_of page_count = Some pc"
  shows "(wrapper_validate strp api oauth_token plan label screen_name page_count from_date
            to_date language = None)
         = (pc \<noteq> 0 \<and> wrapper_validate strp api oauth_token plan label screen_name (PyInt 1)
                         from_date to_date language = None)"
  unfolding wrapper_validate_def if_Some_Some if_Some_eq_None case_sum_eq_None int_arg_iff
  using assms by auto

lemma search_tweets_pages_single:
  assumes "pc \<le> 1"
  shows "search_tweets_pages env (search_url pl lb) (search_headers tok) q fd td pc =
     ((if status_code (requests_post env [page_request tok pl lb q fd td None]) \<noteq> 200 then
         Inl (Exn ConnectionError
           (''connection to api.twitter could not be established, with error         code ''
              @ str_int (status_code (requests_post env [page_request tok pl lb q fd td None]))))
       else
         (case results (json (requests_post env [page_request tok pl lb q fd td None])) of
            None \<Rightarrow> Inl (Exn IndexError ''no tweets could be retrieved.'')
          | Some page \<Rightarrow>
              if page \<noteq> [] then Inr page
              else Inl (Exn IndexError
                (if next_key (json (requests_post env [page_request tok pl lb q fd td None]))
                      = None
                 then '' no tweets could be retrieved.'' else ''no tweets could be retrieved.'')))),
      [page_request tok pl lb q fd td None])"
  using assms
  by (simp add: search_tweets_pages_def Let_def page_request_eq split: option.splits)

lemma wrapper_pages_single:
  assumes "pc \<le> 1"
  shows "wrapper_pages env (search_url pl lb) (search_headers tok) q fd td pc =
     ((if status_code (requests_post env [page_request tok pl lb q fd td None]) \<noteq> 200 then
         Inl (Exn ConnectionError
           (''connection to api.twitter could not be established, with error             code ''
              @ str_int (status_code (requests_post env [page_request tok pl lb q fd td None]))))
       else
         (case results (json (requests_post env [page_request tok pl lb q fd td None])) of
            None \<Rightarrow> Inl (Exn IndexError ''no tweets could be retrieved.'')
          | Some page \<Rightarrow>
              if page \<noteq> [] then Inr page
              else Inl (Exn IndexError
                (if next_key (json (requests_post env [page_request tok pl lb q fd td None]))
                      = None
                 then '' no tweets could be retrieved.'' else ''no tweets could be retrieved.'')))),
      [page_request tok pl lb q fd td None])"
  using assms
  by (simp add: wrapper_pages_def Let_def page_request_eq split: option.splits)

lemma search_tweets_single_run:
  assumes v: "search_tweets_validate (strptime env) api (PyStr tok) (PyStr pl) (PyStr lb) (PyStr q)
      page_count (PyStr fd) (PyStr td) language = None"
    and pc: "int_of page_count = Some pc" and le: "pc \<le> 1"
  shows "search_tweets env api (PyStr tok) (PyStr pl) (PyStr lb) (PyStr q) page_count (PyStr fd)
           (PyStr td) language =
     (case search_tweets_language env api q language of
        Inl e \<Rightarrow> \<lparr>outcome = Inl e, calls = [Languages api]\<rparr>
      | Inr q' \<Rightarrow>
          \<lparr>outcome =
             (if status_code (requests_post env [page_request tok pl lb q' fd td None]) \<noteq> 200
              then
                Inl (Exn ConnectionError
                  (''connection to api.twitter could not be established, with error         code ''
                     @ str_int (status_code
                         (requests_post env [page_request tok pl lb q' fd td None]))))
              else
                (case results (json (requests_post env [page_request tok pl lb q' fd td None])) of
                   None \<Rightarrow> Inl (Exn IndexError ''no tweets could be retrieved.'')
                 | Some page \<Rightarrow>
                     if page \<noteq> [] then Inr page
                     else Inl (Exn IndexError
                       (if next_key (json (requests_post env
                              [page_request tok pl lb q' fd td None])) = None
                        then '' no tweets could be retrieved.''
                        else ''no tweets could be retrieved.'')))),
           calls = [Languages api, Search (page_request tok pl lb q' fd td None)]\<rparr>)"
  unfolding search_tweets_valid_run [OF v pc]
  by (simp add: search_tweets_pages_single [OF le] split: sum.splits)

lemma wrapper_single_run:
  assumes v: "wrapper_validate (strptime env) api (PyStr tok) (PyStr pl) (PyStr lb) (PyStr sn)
      page_count (PyStr fd) (PyStr td) language = None"
    and pc: "int_of page_count = Some pc" and le: "pc \<le> 1"
  shows "wrapper_premium_user_search env api (PyStr tok) (PyStr pl) (PyStr lb) (PyStr sn)
           page_count (PyStr fd) (PyStr td) language =
     (case wrapper_language env api (''from:'' @ sn) language of
        Inl e \<Rightarrow> \<lparr>outcome = Inl e, calls = [Languages api]\<rparr>
      | Inr q' \<Rightarrow>
          \<lparr>outcome =
             (if status_code (requests_post env [page_request tok pl lb q' fd td None]) \<noteq> 200
              then
                Inl (Exn ConnectionError
                  (''connection to api.twitter could not be established, with error             code ''
                     @ str_int (status_code
                         (requests_post env [page_request tok pl lb q' fd td None]))))
              else
                (case results (json (requests_post env [page_request tok pl lb q' fd td None])) of
                   None \<Rightarrow> Inl (Exn IndexError ''no tweets could be retrieved.'')
                 | Some page \<Rightarrow>
                     if page \<noteq> [] then Inr page
                     else Inl (Exn IndexError
                       (if next_key (json (requests_post env
                              [page_request tok pl lb q' fd td None])) = None
                        then '' no tweets could be retrieved.''
                        else ''no tweets could be retrieved.'')))),
           calls = [Languages api, Search (page_request tok pl lb q' fd td None)]\<rparr>)"
  unfolding wrapper_valid_run [OF v pc]
  by (simp add: wrapper_pages_single [OF le] split: sum.splits)

lemma search_tweets_single_page:
  assumes pc: "int_of page_count = Some pc" and le: "pc \<le> 1"
  shows "single_page env (search_tweets env api oauth_token plan label query page_count from_date
           to_date language)"
proof (cases "search_tweets_validate (strptime env) api oauth_token plan label query page_count
           from_date to_date language = None")
  case True
  from search_tweets_validate_NoneD [OF True]
  obtain tok pl lb q fd td where forms: "oauth_token = PyStr tok" "plan = PyStr pl"
      "label = PyStr lb" "query = PyStr q" "from_date = PyStr fd" "to_date = PyStr td"
    by blast
  show ?thesis
    unfolding forms search_tweets_single_run [OF True [unfolded forms] pc le]
    by (cases "search_tweets_language env api q language")
       (auto simp: single_page_def split: option.splits)
next
  case False
  from search_tweets_invalid [OF False] show ?thesis by (auto simp: single_page_def)
qed

lemma wrapper_single_page:
  assumes pc: "int_of page_count = Some pc" and le: "pc \<le> 1"
  shows "single_page env (wrapper_premium_user_search env api oauth_token plan label screen_name
           page_count from_date to_date language)"
proof (cases "wrapper_validate (strptime env) api oauth_token plan label screen_name page_count
           from_date to_date language = None")
  case True
  from wrapper_validate_NoneD [OF True]
  obtain tok pl lb sn fd td where forms: "oauth_token = PyStr tok" "plan = PyStr pl"
      "label = PyStr lb" "screen_name = PyStr sn" "from_date = PyStr fd" "to_date = PyStr td"
    by blast
  show ?thesis
    unfolding forms wrapper_single_run [OF True [unfolded forms] pc le]
    by (cases "wrapper_language env api (''from:'' @ sn) language")
       (auto simp: single_page_def split: option.splits)
next
  case False
  from wrapper_invalid [OF False] show ?thesis by (auto simp: single_page_def)
qed


text \<open>
  Claim C10. Let \<^verbatim>\<open>page_count\<close> be an instance of \<^verbatim>\<open>int\<close> of value \<open>pc\<close> (an integer,
  or \<^verbatim>\<open>True\<close> or \<^verbatim>\<open>False\<close>). The check of lines 60--61 and 220--221 rejects exactly
  the value zero: validation passes if and only if \<open>pc\<close> is not zero and validation
  passes with \<^verbatim>\<open>page_count = 1\<close>, so negative integers are accepted. For an accepted
  \<open>pc \<le> 1\<close> the loop of \<^verbatim>\<open>range(page_count - 1)\<close> does not run, and the run is this one:
  the language lookup; then, unless the language filter raises, the first request and
  no other; the items of the first page are returned when its status is 200 and its
  \<^verbatim>\<open>'results'\<close> array is not empty, and \<^verbatim>\<open>ConnectionError\<close> (status) or \<^verbatim>\<open>IndexError\<close>
  (no array, or an empty one) is raised otherwise.
\<close>

theorem small_page_count:
  assumes pc: "int_of page_count = Some pc"
  shows
   "(search_tweets_validate (strptime env) api oauth_token plan label query page_count from_date
       to_date language = None
     \<longleftrightarrow> pc \<noteq> 0 \<and> search_tweets_validate (strptime env) api oauth_token plan label query
                    (PyInt 1) from_date to_date language = None)
    \<and> (wrapper_validate (strptime env) api oauth_token plan label screen_name page_count
         from_date to_date language = None
       \<longleftrightarrow> pc \<noteq> 0 \<and> wrapper_validate (strptime env) api oauth_token plan label screen_name
                      (PyInt 1) from_date to_date language = None)
    \<and> (pc \<le> 1 \<longrightarrow>
         single_page env (search_tweets env api oauth_token plan label query page_count
           from_date to_date language)
       \<and> single_page env (wrapper_premium_user_search env api oauth_token plan label screen_name
           page_count from_date to_date language))
    \<and> (pc \<le> 1 \<longrightarrow>
        search_tweets_validate (strptime env) api oauth_token plan label query page_count
          from_date to_date language = None \<longrightarrow>
        (\<exists>tok pl lb q fd td.
            oauth_token = PyStr tok \<and> plan = PyStr pl \<and> label = PyStr lb \<and> query = PyStr q
          \<and> from_date = PyStr fd \<and> to_date = PyStr td
          \<and> search_tweets env api oauth_token plan label query page_count from_date to_date
                language =
              (case search_tweets_language env api q language of
                 Inl e \<Rightarrow> \<lparr>outcome = Inl e, calls = [Languages api]\<rparr>
               | Inr q' \<Rightarrow>
                   \<lparr>outcome =
                          (if status_code (requests_post env [page_request tok pl lb q' fd td None])
                                \<noteq> 200
                           then
                             Inl (Exn ConnectionError
                               (''connection to api.twitter could not be established, with error         code ''
                                  @ str_int (status_code
                                      (requests_post env [page_request tok pl lb q' fd td None]))))
                           else
                             (case results (json (requests_post env
                                     [page_request tok pl lb q' fd td None])) of
                                None \<Rightarrow> Inl (Exn IndexError ''no tweets could be retrieved.'')
                              | Some page \<Rightarrow>
                                  if page \<noteq> [] then Inr page
                                  else Inl (Exn IndexError
                                    (if next_key (json (requests_post env
                                           [page_request tok pl lb q' fd td None])) = None
                                     then '' no tweets could be retrieved.''
                                     else ''no tweets could be retrieved.'')))),
                    calls = [Languages api,
                             Search (page_request tok pl lb q' fd td None)]\<rparr>)))
    \<and> (pc \<le> 1 \<longrightarrow>
        wrapper_validate (strptime env) api oauth_token plan label screen_name page_count
          from_date to_date language = None \<longrightarrow>
        (\<exists>tok pl lb sn fd td.
            oauth_token = PyStr tok \<and> plan = PyStr pl \<and> label = PyStr lb
          \<and> screen_name = PyStr sn \<and> from_date = PyStr fd \<and> to_date = PyStr td
          \<and> wrapper_premium_user_search env api oauth_token plan label screen_name page_count
                from_date to_date language =
              (case wrapper_language env api (''from:'' @ sn) language of
                 Inl e \<Rightarrow> \<lparr>outcome = Inl e, calls = [Languages api]\<rparr>
               | Inr q' \<Rightarrow>
                   \<lparr>outcome =
                          (if status_code (requests_post env [page_request tok pl lb q' fd td None])
                                \<noteq> 200
                           then
                             Inl (Exn ConnectionError
                               (''connection to api.twitter could not be established, with error             code ''
                                  @ str_int (status_code
                                      (requests_post env [page_request tok pl lb q' fd td None]))))
                           else
                             (case results (json (requests_post env
                                     [page_request tok pl lb q' fd td None])) of
                                None \<Rightarrow> Inl (Exn IndexError ''no tweets could be retrieved.'')
                              | Some page \<Rightarrow>
                                  if page \<noteq> [] then Inr page
                                  else Inl (Exn IndexError
                                    (if next_key (json (requests_post env
                                           [page_request tok pl lb q' fd td None])) = None
                                     then '' no tweets could be retrieved.''
                                     else ''no tweets could be retrieved.'')))),
                    calls = [Languages api,
                             Search (page_request tok pl lb q' fd td None)]\<rparr>)))"
proof (intro conjI impI)
  show "(search_tweets_validate (strptime env) api oauth_token plan label query page_count
           from_date to_date language = None)
        = (pc \<noteq> 0 \<and> search_tweets_validate (strptime env) api oauth_token plan label query
                    (PyInt 1) from_date to_date language = None)"
    by (rule search_tweets_validate_page_count [OF pc])
  show "(wrapper_validate (strptime env) api oauth_token plan label screen_name page_count
           from_date to_date language = None)
        = (pc \<noteq> 0 \<and> wrapper_validate (strptime env) api oauth_token plan label screen_name
                      (PyInt 1) from_date to_date language = None)"
    by (rule wrapper_validate_page_count [OF pc])
next
  assume "pc \<le> 1"
  then show "single_page env (search_tweets env api oauth_token plan label query page_count
           from_date to_date language)"
    by (rule search_tweets_single_page [OF pc])
next
  assume "pc \<le> 1"
  then show "single_page env (wrapper_premium_user_search env api oauth_token plan label
           screen_name page_count from_date to_date language)"
    by (rule wrapper_single_page [OF pc])
next
  assume le: "pc \<le> 1"
    and v: "search_tweets_validate (strptime env) api oauth_token plan label query page_count
          from_date to_date language = None"
  from search_tweets_validate_NoneD [OF v]
  obtain tok pl lb q fd td where forms: "oauth_token = PyStr tok" "plan = PyStr pl"
      "label = PyStr lb" "query = PyStr q" "from_date = PyStr fd" "to_date = PyStr td"
    by blast
  from search_tweets_single_run [OF v [unfolded forms] pc le] forms
  show "\<exists>tok pl lb q fd td.
            oauth_token = PyStr tok \<and> plan = PyStr pl \<and> label = PyStr lb \<and> query = PyStr q
          \<and> from_date = PyStr fd \<and> to_date = PyStr td
          \<and> search_tweets env api oauth_token plan label query page_count from_date to_date
                language =
              (case search_tweets_language env api q language of
                 Inl e \<Rightarrow> \<lparr>outcome = Inl e, calls = [Languages api]\<rparr>
               | Inr q' \<Rightarrow>
                   \<lparr>outcome =
                          (if status_code (requests_post env [page_request tok pl lb q' fd td None])
                                \<noteq> 200
                           then
                             Inl (Exn ConnectionError
                               (''connection to api.twitter could not be established, with error         code ''
                                  @ str_int (status_code
                                      (requests_post env [page_request tok pl lb q' fd td None]))))
                           else
                             (case results (json (requests_post env
                                     [page_request tok pl lb q' fd td None])) of
                                None \<Rightarrow> Inl (Exn IndexError ''no tweets could be retrieved.'')
                              | Some page \<Rightarrow>
                                  if page \<noteq> [] then Inr page
                                  else Inl (Exn IndexError
                                    (if next_key (json (requests_post env
                                           [page_request tok pl lb q' fd td None])) = None
                                     then '' no tweets could be retrieved.''
                                     else ''no tweets could be retrieved.'')))),
                    calls = [Languages api,
                             Search (page_request tok pl lb q' fd td None)]\<rparr>)"
    by blast
next
  assume le: "pc \<le> 1"
    and v: "wrapper_validate (strptime env) api oauth_token plan label screen_name page_count
          from_date to_date language = None"
  from wrapper_validate_NoneD [OF v]
  obtain tok pl lb sn fd td where forms: "oauth_token = PyStr tok" "plan = PyStr pl"
      "label = PyStr lb" "screen_name = PyStr sn" "from_date = PyStr fd" "to_date = PyStr td"
    by blast
  from wrapper_single_run [OF v [unfolded forms] pc le] forms
  show "\<exists>tok pl lb sn fd td.
            oauth_token = PyStr tok \<and> plan = PyStr pl \<and> label = PyStr lb
          \<and> screen_name = PyStr sn \<and> from_date = PyStr fd \<and> to_date = PyStr td
          \<and> wrapper_premium_user_search env api oauth_token plan label screen_name page_count
                from_date to_date language =
              (case wrapper_language env api (''from:'' @ sn) language of
                 Inl e \<Rightarrow> \<lparr>outcome = Inl e, calls = [Languages api]\<rparr>
               | Inr q' \<Rightarrow>
                   \<lparr>outcome =
                          (if status_code (requests_post env [page_request tok pl lb q' fd td None])
                                \<noteq> 200
                           then
                             Inl (Exn ConnectionError
                               (''connection to api.twitter could not be established, with error             code ''
                                  @ str_int (status_code
                                      (requests_post env [page_request tok pl lb q' fd td None]))))
                           else
                             (case results (json (requests_post env
                                     [page_request tok pl lb q' fd td None])) of
                                None \<Rightarrow> Inl (Exn IndexError ''no tweets could be retrieved.'')
                              | Some page \<Rightarrow>
                                  if page \<noteq> [] then Inr page
                                  else Inl (Exn IndexError
                                    (if next_key (json (requests_post env
                                           [page_request tok pl lb q' fd td None])) = None
                                     then '' no tweets could be retrieved.''
                                     else ''no tweets could be retrieved.'')))),
                    calls = [Languages api,
                             Search (page_request tok pl lb q' fd td None)]\<rparr>)"
    by blast
qed

theorem small_page_count_witness:
  "search_tweets_validate (strptime (demo_env 2 2 2)) (PyClient 0) (PyStr ''token'')
     (PyStr ''30day'') (PyStr ''dev'') (PyStr ''isabelle'') (PyInt (- 3)) (PyStr ''201901010000'')
     (PyStr ''201901020000'') PyNone = None
   \<and> search_tweets_validate (strptime (demo_env 2 2 2)) (PyClient 0) (PyStr ''token'')
     (PyStr ''30day'') (PyStr ''dev'') (PyStr ''isabelle'') (PyInt 0) (PyStr ''201901010000'')
     (PyStr ''201901020000'') PyNone \<noteq> None
   \<and> single_page (demo_env 2 2 2) (search_tweets (demo_env 2 2 2) (PyClient 0) (PyStr ''token'')
     (PyStr ''30day'') (PyStr ''dev'') (PyStr ''isabelle'') (PyInt (- 3)) (PyStr ''201901010000'')
     (PyStr ''201901020000'') PyNone)
   \<and> search_tweets (demo_env 2 2 2) (PyClient 0) (PyStr ''token'') (PyStr ''30day'')
     (PyStr ''dev'') (PyStr ''isabelle'') (PyInt (- 3)) (PyStr ''201901010000'')
     (PyStr ''201901020000'') PyNone =
     \<lparr>outcome = Inr [0, 1],
      calls = [Languages (PyClient 0),
               Search (page_request ''token'' ''30day'' ''dev'' ''isabelle'' ''201901010000''
                         ''201901020000'' None)]\<rparr>
   \<and> wrapper_premium_user_search (demo_env 2 2 2) (PyClient 0) (PyStr ''token'') (PyStr ''30day'')
     (PyStr ''dev'') (PyStr ''isabelle'') (PyInt (- 3)) (PyStr ''201901010000'')
     (PyStr ''201901020000'') PyNone =
     \<lparr>outcome = Inr [0, 1],
      calls = [Languages (PyClient 0),
               Search (page_request ''token'' ''30day'' ''dev'' ''from:isabelle'' ''201901010000''
                         ''201901020000'' None)]\<rparr>
   \<and> search_tweets (demo_env 2 2 2) (PyClient 0) (PyStr ''token'') (PyStr ''30day'')
     (PyStr ''dev'') (PyStr ''isabelle'') (PyBool True) (PyStr ''201901010000'')
     (PyStr ''201901020000'') PyNone =
     \<lparr>outcome = Inr [0, 1],
      calls = [Languages (PyClient 0),
               Search (page_request ''token'' ''30day'' ''dev'' ''isabelle'' ''201901010000''
                         ''201901020000'' None)]\<rparr>"
proof -
  have v1: "search_tweets_validate (strptime (demo_env 2 2 2)) (PyClient 0) (PyStr ''token'')
     (PyStr ''30day'') (PyStr ''dev'') (PyStr ''isabelle'') (PyInt 1) (PyStr ''201901010000'')
     (PyStr ''201901020000'') PyNone = None"
    using demo_validate [of "''isabelle''" "PyInt 1" 1 PyNone] by (simp add: demo_env_simps)
  have w1: "wrapper_validate (strptime (demo_env 2 2 2)) (PyClient 0) (PyStr ''token'')
     (PyStr ''30day'') (PyStr ''dev'') (PyStr ''isabelle'') (PyInt 1) (PyStr ''201901010000'')
     (PyStr ''201901020000'') PyNone = None"
    using demo_wrapper_validate [of "''isabelle''" "PyInt 1" 1 PyNone]
    by (simp add: demo_env_simps)
  have first: "requests_post (demo_env 2 2 2) [r] =
      \<lparr>status_code = 200, json = \<lparr>results = Some [0, 1], next_key = Some ''page2''\<rparr>\<rparr>" for r
    by (simp add: demo_post demo_server_def upt_rec str_nat_2)
  have wl: "wrapper_language (demo_env 2 2 2) (PyClient 0) q PyNone = Inr q" for q
    by (simp add: wrapper_language_eq demo_language_none)
  have neg: "int_of (PyInt (- 3)) = Some (- 3)" by simp
  have zero: "int_of (PyInt 0) = Some 0" by simp
  have true: "int_of (PyBool True) = Some 1" by simp
  note N = small_page_count [OF neg, where env = "demo_env 2 2 2" and api = "PyClient 0"
      and oauth_token = "PyStr ''token''" and plan = "PyStr ''30day''" and label = "PyStr ''dev''"
      and query = "PyStr ''isabelle''" and screen_name = "PyStr ''isabelle''"
      and from_date = "PyStr ''201901010000''" and to_date = "PyStr ''201901020000''"
      and language = PyNone]
  note Z = small_page_count [OF zero, where env = "demo_env 2 2 2" and api = "PyClient 0"
      and oauth_token = "PyStr ''token''" and plan = "PyStr ''30day''" and label = "PyStr ''dev''"
      and query = "PyStr ''isabelle''" and screen_name = "PyStr ''isabelle''"
      and from_date = "PyStr ''201901010000''" and to_date = "PyStr ''201901020000''"
      and language = PyNone]
  note B = small_page_count [OF true, where env = "demo_env 2 2 2" and api = "PyClient 0"
      and oauth_token = "PyStr ''token''" and plan = "PyStr ''30day''" and label = "PyStr ''dev''"
      and query = "PyStr ''isabelle''" and screen_name = "PyStr ''isabelle''"
      and from_date = "PyStr ''201901010000''" and to_date = "PyStr ''201901020000''"
      and language = PyNone]
  from N v1 have v: "search_tweets_validate (strptime (demo_env 2 2 2)) (PyClient 0)
     (PyStr ''token'') (PyStr ''30day'') (PyStr ''dev'') (PyStr ''isabelle'') (PyInt (- 3))
     (PyStr ''201901010000'') (PyStr ''201901020000'') PyNone = None"
    by simp
  from N w1 have w: "wrapper_validate (strptime (demo_env 2 2 2)) (PyClient 0)
     (PyStr ''token'') (PyStr ''30day'') (PyStr ''dev'') (PyStr ''isabelle'') (PyInt (- 3))
     (PyStr ''201901010000'') (PyStr ''201901020000'') PyNone = None"
    by simp
  from B v1 have vb: "search_tweets_validate (strptime (demo_env 2 2 2)) (PyClient 0)
     (PyStr ''token'') (PyStr ''30day'') (PyStr ''dev'') (PyStr ''isabelle'') (PyBool True)
     (PyStr ''201901010000'') (PyStr ''201901020000'') PyNone = None"
    by simp
  from Z have v0: "search_tweets_validate (strptime (demo_env 2 2 2)) (PyClient 0)
     (PyStr ''token'') (PyStr ''30day'') (PyStr ''dev'') (PyStr ''isabelle'') (PyInt 0)
     (PyStr ''201901010000'') (PyStr ''201901020000'') PyNone \<noteq> None"
    by simp
  from N have s: "single_page (demo_env 2 2 2) (search_tweets (demo_env 2 2 2) (PyClient 0)
     (PyStr ''token'') (PyStr ''30day'') (PyStr ''dev'') (PyStr ''isabelle'') (PyInt (- 3))
     (PyStr ''201901010000'') (PyStr ''201901020000'') PyNone)"
    by simp
  from N v have rs: "search_tweets (demo_env 2 2 2) (PyClient 0) (PyStr ''token'')
     (PyStr ''30day'') (PyStr ''dev'') (PyStr ''isabelle'') (PyInt (- 3)) (PyStr ''201901010000'')
     (PyStr ''201901020000'') PyNone =
     \<lparr>outcome = Inr [0, 1],
      calls = [Languages (PyClient 0),
               Search (page_request ''token'' ''30day'' ''dev'' ''isabelle'' ''201901010000''
                         ''201901020000'' None)]\<rparr>"
    by (simp add: demo_language_none first)
  from N w have rw: "wrapper_premium_user_search (demo_env 2 2 2) (PyClient 0) (PyStr ''token'')
     (PyStr ''30day'') (PyStr ''dev'') (PyStr ''isabelle'') (PyInt (- 3)) (PyStr ''201901010000'')
     (PyStr ''201901020000'') PyNone =
     \<lparr>outcome = Inr [0, 1],
      calls = [Languages (PyClient 0),
               Search (page_request ''token'' ''30day'' ''dev'' ''from:isabelle'' ''201901010000''
                         ''201901020000'' None)]\<rparr>"
    by (simp add: wl first)
  from B vb have rb: "search_tweets (demo_env 2 2 2) (PyClient 0) (PyStr ''token'')
     (PyStr ''30day'') (PyStr ''dev'') (PyStr ''isabelle'') (PyBool True) (PyStr ''201901010000'')
     (PyStr ''201901020000'') PyNone =
     \<lparr>outcome = Inr [0, 1],
      calls = [Languages (PyClient 0),
               Search (page_request ''token'' ''30day'' ''dev'' ''isabelle'' ''201901010000''
                         ''201901020000'' None)]\<rparr>"
    by (simp add: demo_language_none first)
  from v v0 s rs rw rb show ?thesis by simp
qed

section \<open>The wrapper and search_tweets\<close>

lemma wrapper_validate_from:
  "sn \<noteq> [] \<Longrightarrow>
   wrapper_validate strp api oauth_token plan label (PyStr sn) page_count from_date to_date language
   = search_tweets_validate strp api oauth_token plan label (PyStr (''from:'' @ sn)) page_count
       from_date to_date language"
  by (simp add: wrapper_validate_def search_tweets_validate_def)

lemma pages_agree:
  "snd (wrapper_pages env url headers q fd td pc) = snd (search_tweets_pages env url headers q fd td pc)
   \<and> (case (fst (wrapper_pages env url headers q fd td pc),
             fst (search_tweets_pages env url headers q fd td pc)) of
         (Inr a, Inr b) \<Rightarrow> a = b
       | (Inl e1, Inl e2) \<Rightarrow> kind e1 = kind e2
       | _ \<Rightarrow> False)"
  by (simp add: wrapper_pages_def search_tweets_pages_def Let_def wrapper_follow_eq
      split: option.splits prod.splits)


text \<open>
  Claim C2, as stated, fails at the empty screen name: line 217 rejects it with
  \<^verbatim>\<open>ValueError\<close>, while \<^verbatim>\<open>search_tweets\<close> accepts the query \<^verbatim>\<open>'from:'\<close> and
  returns the first page. (For a \<^verbatim>\<open>screen_name\<close> that is not a string,
  \<^verbatim>\<open>'from:' + screen_name\<close> raises \<^verbatim>\<open>TypeError\<close> and is no query at all.)
\<close>

theorem empty_screen_name_counterexample:
  "outcome (wrapper_premium_user_search (demo_env 1 1 1) (PyClient 0) (PyStr ''token'')
      (PyStr ''30day'') (PyStr ''dev'') (PyStr '''') (PyInt 1) (PyStr ''201901010000'')
      (PyStr ''201901020000'') PyNone) = Inl (Exn ValueError ''screen_name must be a `str`'')
   \<and> outcome (search_tweets (demo_env 1 1 1) (PyClient 0) (PyStr ''token'') (PyStr ''30day'')
      (PyStr ''dev'') (PyStr (''from:'' @ '''')) (PyInt 1) (PyStr ''201901010000'')
      (PyStr ''201901020000'') PyNone) = Inr [0]
   \<and> \<not> same_behaviour
        (wrapper_premium_user_search (demo_env 1 1 1) (PyClient 0) (PyStr ''token'')
           (PyStr ''30day'') (PyStr ''dev'') (PyStr '''') (PyInt 1) (PyStr ''201901010000'')
           (PyStr ''201901020000'') PyNone)
        (search_tweets (demo_env 1 1 1) (PyClient 0) (PyStr ''token'') (PyStr ''30day'')
           (PyStr ''dev'') (PyStr (''from:'' @ '''')) (PyInt 1) (PyStr ''201901010000'')
           (PyStr ''201901020000'') PyNone)"
proof -
  have w: "wrapper_premium_user_search (demo_env 1 1 1) (PyClient 0) (PyStr ''token'')
      (PyStr ''30day'') (PyStr ''dev'') (PyStr '''') (PyInt 1) (PyStr ''201901010000'')
      (PyStr ''201901020000'') PyNone
    = \<lparr>outcome = Inl (Exn ValueError ''screen_name must be a `str`''), calls = []\<rparr>"
    by (simp add: wrapper_premium_user_search_def wrapper_validate_def)
  have s: "search_tweets (demo_env 1 1 1) (PyClient 0) (PyStr ''token'') (PyStr ''30day'')
      (PyStr ''dev'') (PyStr (''from:'' @ '''')) (PyInt 1) (PyStr ''201901010000'')
      (PyStr ''201901020000'') PyNone
    = \<lparr>outcome = Inr [0],
       calls = [Languages (PyClient 0),
                Search (page_request ''token'' ''30day'' ''dev'' ''from:'' ''201901010000''
                          ''201901020000'' None)]\<rparr>"
    using demo_run_one [of "''from:''" "PyInt 1" 1] by simp
  show ?thesis unfolding w s by (simp add: same_behaviour_def)
qed


text \<open>
  Claim C2, amended. For every non-empty string \<^verbatim>\<open>screen_name\<close> and all other
  arguments, \<^verbatim>\<open>wrapper_premium_user_search\<close> and \<^verbatim>\<open>search_tweets\<close> on the query
  \<^verbatim>\<open>'from:' + screen_name\<close> make the same calls and either return the same list or
  raise exceptions of the same class, under the same responses.
\<close>

theorem wrapper_refines_search_tweets:
  assumes "sn \<noteq> []"
  shows "same_behaviour
           (wrapper_premium_user_search env api oauth_token plan label (PyStr sn) page_count
              from_date to_date language)
           (search_tweets env api oauth_token plan label (PyStr (''from:'' @ sn)) page_count
              from_date to_date language)"
proof (cases "wrapper_validate (strptime env) api oauth_token plan label (PyStr sn) page_count
           from_date to_date language")
  case None
  then have vs: "search_tweets_validate (strptime env) api oauth_token plan label
      (PyStr (''from:'' @ sn)) page_count from_date to_date language = None"
    by (simp add: wrapper_validate_from [OF assms])
  from wrapper_validate_NoneD [OF None]
  obtain tok pl lb pc fd td where forms: "oauth_token = PyStr tok" "plan = PyStr pl"
      "label = PyStr lb" "int_of page_count = Some pc" "from_date = PyStr fd" "to_date = PyStr td"
    by blast
  show ?thesis
    unfolding forms wrapper_valid_run [OF None [unfolded forms] forms(4)]
      search_tweets_valid_run [OF vs [unfolded forms] forms(4)] wrapper_language_eq
    using pages_agree [of env "search_url pl lb" "search_headers tok" _ fd td pc]
    by (cases "search_tweets_language env api (''from:'' @ sn) language")
       (simp_all add: same_behaviour_def)
next
  case (Some e)
  then have vs: "search_tweets_validate (strptime env) api oauth_token plan label
      (PyStr (''from:'' @ sn)) page_count from_date to_date language = Some e"
    by (simp add: wrapper_validate_from [OF assms])
  show ?thesis
    using Some vs
    by (simp add: same_behaviour_def wrapper_premium_user_search_def search_tweets_def)
qed


theorem wrapper_refines_search_tweets_witness:
  "''isabelle'' \<noteq> []
   \<and> same_behaviour
        (wrapper_premium_user_search (demo_env 2 0 2) (PyClient 0) (PyStr ''token'')
           (PyStr ''30day'') (PyStr ''dev'') (PyStr ''isabelle'') (PyInt 3)
           (PyStr ''201901010000'') (PyStr ''201901020000'') (PyStr ''en''))
        (search_tweets (demo_env 2 0 2) (PyClient 0) (PyStr ''token'') (PyStr ''30day'')
           (PyStr ''dev'') (PyStr (''from:'' @ ''isabelle'')) (PyInt 3) (PyStr ''201901010000'')
           (PyStr ''201901020000'') (PyStr ''en''))"
proof -
  have h: "''isabelle'' \<noteq> []" by simp
  from wrapper_refines_search_tweets [OF h] h show ?thesis by blast
qed

end
